theory Spec2Isabelle
  imports Complex_Main
begin

section \<open>Physics laboratory: the simulation core\<close>

text \<open>
  The demos compute with JavaScript numbers. They are modelled here as real numbers:
  every operation of the source is the corresponding operation on \<^typ>\<open>real\<close>, so the
  theorems below are about the arithmetic the code writes down, not about its rounding.
  Timestamps handed to an animation-frame callback are arguments of the model; mutable
  refs and component state are fields of records that each function returns updated.
\<close>

subsection \<open>State shared by the demos\<close>

record sim_clock =
  time :: real
  lastUpdateTime :: real

record run_flag =
  isRunning :: bool

record 's ref_demo = run_flag +
  simulationState :: 's

subsection \<open>SimplePendulum.tsx\<close>

record pendulum_state = sim_clock +
  angle :: real
  angularVelocity :: real

text \<open>The body of the guarded block of \<open>animate\<close> (lines 107 to 115), for a given \<open>deltaTime\<close>.\<close>

definition pendulum_integrate :: "real \<Rightarrow> real \<Rightarrow> real \<Rightarrow> pendulum_state \<Rightarrow> pendulum_state" where
  "pendulum_integrate gravity len deltaTime st =
     (let angularAcceleration = - (gravity / len) * angle st;
          st1 = st\<lparr>angularVelocity := angularVelocity st + angularAcceleration * deltaTime\<rparr>;
          st2 = st1\<lparr>angularVelocity := angularVelocity st1 * 0.999\<rparr>;
          st3 = st2\<lparr>angle := angle st2 + angularVelocity st2 * deltaTime\<rparr>
      in st3\<lparr>time := time st3 + deltaTime\<rparr>)"

definition pendulum_deltaTime :: "pendulum_state \<Rightarrow> real \<Rightarrow> real" where
  "pendulum_deltaTime st timestamp = (timestamp - lastUpdateTime st) / 1000"

definition pendulum_animate :: "real \<Rightarrow> real \<Rightarrow> pendulum_state \<Rightarrow> real \<Rightarrow> pendulum_state" where
  "pendulum_animate gravity len st timestamp =
     (let st' = (if lastUpdateTime st > 0
                 then pendulum_integrate gravity len (pendulum_deltaTime st timestamp) st
                 else st)
      in st'\<lparr>lastUpdateTime := timestamp\<rparr>)"



subsection \<open>InclinedPlane.tsx\<close>

definition GRAVITY :: real where
  "GRAVITY = 9.81"

record incline_state = sim_clock +
  position :: real
  velocity :: real

text \<open>\<open>calculations\<close> of the inclined plane; the object it returns has the one field \<open>acceleration\<close>.\<close>

definition incline_calculations :: "real \<Rightarrow> real \<Rightarrow> real \<Rightarrow> real" where
  "incline_calculations angle_deg mass friction =
     (let angleRad = (angle_deg * pi) / 180;
          forceParallel = mass * GRAVITY * sin angleRad;
          forceNormal = mass * GRAVITY * cos angleRad;
          forceFriction = friction * forceNormal;
          netForce = forceParallel - forceFriction
      in if netForce > 0 then netForce / mass else 0)"

definition maxPosition :: real where
  "maxPosition = 15"

definition incline_integrate :: "real \<Rightarrow> real \<Rightarrow> incline_state ref_demo \<Rightarrow> incline_state ref_demo" where
  "incline_integrate acceleration deltaTime d =
     (let st = simulationState d;
          st1 = st\<lparr>velocity := velocity st + acceleration * deltaTime\<rparr>;
          st2 = st1\<lparr>position := position st1 + velocity st1 * deltaTime\<rparr>;
          st3 = st2\<lparr>time := time st2 + deltaTime\<rparr>
      in if position st3 \<ge> maxPosition
         then d\<lparr>isRunning := False, simulationState := st3\<lparr>position := maxPosition\<rparr>\<rparr>
         else d\<lparr>simulationState := st3\<rparr>)"

definition incline_deltaTime :: "incline_state \<Rightarrow> real \<Rightarrow> real" where
  "incline_deltaTime st timestamp = (timestamp - lastUpdateTime st) / 1000"

definition incline_animate :: "real \<Rightarrow> incline_state ref_demo \<Rightarrow> real \<Rightarrow> incline_state ref_demo" where
  "incline_animate acceleration d timestamp =
     (let d' = (if lastUpdateTime (simulationState d) > 0
                then incline_integrate acceleration
                       (incline_deltaTime (simulationState d) timestamp) d
                else d)
      in d'\<lparr>simulationState := (simulationState d')\<lparr>lastUpdateTime := timestamp\<rparr>\<rparr>)"



subsection \<open>MRU.tsx and MRUV.tsx\<close>

text \<open>
  Both components keep \<open>elapsedTime\<close> as state and \<open>lastTimeRef\<close> as a nullable ref;
  position and velocity are not stored but computed from \<open>elapsedTime\<close>.
\<close>

record clock_demo = run_flag +
  elapsedTime :: real
  lastTimeRef :: "real option"
  initialPosition :: real
  totalTime :: real

record mru_demo = clock_demo +
  mru_velocity :: real

record mruv_demo = clock_demo +
  initialVelocity :: real
  acceleration :: real

definition mru_currentPosition :: "mru_demo \<Rightarrow> real" where
  "mru_currentPosition d = initialPosition d + mru_velocity d * elapsedTime d"

definition mru_deltaTime :: "mru_demo \<Rightarrow> real \<Rightarrow> real" where
  "mru_deltaTime d timestamp =
     (let last = (case lastTimeRef d of None \<Rightarrow> timestamp | Some l \<Rightarrow> l)
      in (timestamp - last) / 1000)"

definition mru_animate :: "mru_demo \<Rightarrow> real \<Rightarrow> mru_demo" where
  "mru_animate d timestamp =
     (let deltaTime = mru_deltaTime d timestamp;
          d1 = d\<lparr>lastTimeRef := Some timestamp\<rparr>;
          newTime = elapsedTime d1 + deltaTime
      in if newTime \<ge> totalTime d1
         then d1\<lparr>isRunning := False, elapsedTime := totalTime d1\<rparr>
         else d1\<lparr>elapsedTime := newTime\<rparr>)"



text \<open>\<open>currentValues\<close> of MRUV: the pair (position, velocity).\<close>

definition mruv_currentValues :: "mruv_demo \<Rightarrow> real \<times> real" where
  "mruv_currentValues d =
     (let t = elapsedTime d;
          pos = initialPosition d + initialVelocity d * t + 0.5 * acceleration d * t * t;
          vel = initialVelocity d + acceleration d * t
      in (pos, vel))"

definition mruv_deltaTime :: "mruv_demo \<Rightarrow> real \<Rightarrow> real" where
  "mruv_deltaTime d timestamp =
     (let last = (case lastTimeRef d of None \<Rightarrow> timestamp | Some l \<Rightarrow> l)
      in (timestamp - last) / 1000)"

definition mruv_animate :: "mruv_demo \<Rightarrow> real \<Rightarrow> mruv_demo" where
  "mruv_animate d timestamp =
     (let deltaTime = mruv_deltaTime d timestamp;
          d1 = d\<lparr>lastTimeRef := Some timestamp\<rparr>;
          newTime = elapsedTime d1 + deltaTime
      in if newTime \<ge> totalTime d1
         then d1\<lparr>isRunning := False, elapsedTime := totalTime d1\<rparr>
         else d1\<lparr>elapsedTime := newTime\<rparr>)"



subsection \<open>ParticleSimulator.tsx\<close>

record particle =
  p_x :: real
  p_y :: real
  p_vx :: real
  p_vy :: real
  p_radius :: real
  p_mass :: real
  p_charge :: real
  p_color :: string

text \<open>The module constants \<open>G\<close> and \<open>k\<close>.\<close>

definition G_const :: real where
  "G_const = 0.5"

definition k_const :: real where
  "k_const = 10"

text \<open>The canvas element; its \<open>width\<close> and \<open>height\<close> attributes are unsigned integers.\<close>

record canvas =
  c_width :: nat
  c_height :: nat


text \<open>
  \<open>Math.random()\<close> reads the next number of a sequence of draws; the generator is
  passed through explicitly and returned advanced.
\<close>

record rng =
  draws :: "nat \<Rightarrow> real"
  pos :: nat





text \<open>The body of the inner loop of \<open>gameLoop\<close> for one \<open>j\<close>, on the accumulators \<open>fx\<close>, \<open>fy\<close>.\<close>

definition accumulate_force ::
  "real \<Rightarrow> real \<Rightarrow> particle list \<Rightarrow> nat \<Rightarrow> real \<times> real \<Rightarrow> nat \<Rightarrow> real \<times> real" where
  "accumulate_force gravity electrostatics newParticles i f j =
     (if i = j then f
      else
        (let (fx, fy) = f;
             dx = p_x (newParticles ! j) - p_x (newParticles ! i);
             dy = p_y (newParticles ! j) - p_y (newParticles ! i);
             distSq = dx * dx + dy * dy;
             dist = sqrt distSq
         in if dist > 2
            then
              (let forceGrav = (G_const * gravity * p_mass (newParticles ! i)
                                  * p_mass (newParticles ! j)) / distSq;
                   fx1 = fx + forceGrav * (dx / dist);
                   fy1 = fy + forceGrav * (dy / dist);
                   forceElec = (k_const * electrostatics * p_charge (newParticles ! i)
                                  * p_charge (newParticles ! j)) / distSq
               in (fx1 - forceElec * (dx / dist), fy1 - forceElec * (dy / dist)))
            else (fx, fy)))"

definition net_force :: "real \<Rightarrow> real \<Rightarrow> particle list \<Rightarrow> nat \<Rightarrow> real \<times> real" where
  "net_force gravity electrostatics newParticles i =
     foldl (accumulate_force gravity electrostatics newParticles i) (0, 0)
       [0..<length newParticles]"

text \<open>\<open>ax\<close> and \<open>ay\<close> of lines 116 and 117.\<close>

definition particle_acceleration :: "real \<Rightarrow> real \<Rightarrow> particle list \<Rightarrow> nat \<Rightarrow> real \<times> real" where
  "particle_acceleration gravity electrostatics newParticles i =
     (let (fx, fy) = net_force gravity electrostatics newParticles i
      in (fx / p_mass (newParticles ! i), fy / p_mass (newParticles ! i)))"

text \<open>Lines 119 to 122: velocity, then position, with no time step.\<close>

definition integrate_particle :: "real \<times> real \<Rightarrow> particle \<Rightarrow> particle" where
  "integrate_particle a p =
     (let (ax, ay) = a;
          p1 = p\<lparr>p_vx := p_vx p + ax\<rparr>;
          p2 = p1\<lparr>p_vy := p_vy p1 + ay\<rparr>;
          p3 = p2\<lparr>p_x := p_x p2 + p_vx p2\<rparr>
      in p3\<lparr>p_y := p_y p3 + p_vy p3\<rparr>)"

text \<open>Lines 125 to 128: wall collisions.\<close>

definition wall_collisions :: "canvas \<Rightarrow> particle \<Rightarrow> particle" where
  "wall_collisions c p =
     (let p1 = (if p_x p < 0 \<or> p_x p > real (c_width c) then p\<lparr>p_vx := p_vx p * (- 0.8)\<rparr> else p);
          p2 = (if p_y p1 < 0 \<or> p_y p1 > real (c_height c) then p1\<lparr>p_vy := p_vy p1 * (- 0.8)\<rparr> else p1);
          p3 = p2\<lparr>p_x := max 0 (min (real (c_width c)) (p_x p2))\<rparr>
      in p3\<lparr>p_y := max 0 (min (real (c_height c)) (p_y p3))\<rparr>)"

text \<open>One iteration of the outer loop: particle \<open>i\<close> is updated in place in the array.\<close>

definition update_particle :: "canvas \<Rightarrow> real \<Rightarrow> real \<Rightarrow> particle list \<Rightarrow> nat \<Rightarrow> particle list" where
  "update_particle c gravity electrostatics newParticles i =
     newParticles[i := wall_collisions c
        (integrate_particle (particle_acceleration gravity electrostatics newParticles i)
           (newParticles ! i))]"

text \<open>
  \<open>gameLoop\<close> is the animation-frame callback: the platform calls it with the frame's
  timestamp, which the function does not declare and so never reads. The state updater
  inside it returns the previous array when there is no canvas.
\<close>

definition gameLoop ::
  "canvas option \<Rightarrow> real \<Rightarrow> real \<Rightarrow> real \<Rightarrow> particle list \<Rightarrow> particle list" where
  "gameLoop canvasRef gravity electrostatics timestamp prevParticles =
     (case canvasRef of
        None \<Rightarrow> prevParticles
      | Some c \<Rightarrow> foldl (update_particle c gravity electrostatics) prevParticles
                    [0..<length prevParticles])"

text \<open>\<open>dist\<close> of lines 100 to 103, from particle \<open>p\<close> to particle \<open>q\<close>.\<close>

definition particle_dist :: "particle \<Rightarrow> particle \<Rightarrow> real" where
  "particle_dist p q =
     (let dx = p_x q - p_x p;
          dy = p_y q - p_y p;
          distSq = dx * dx + dy * dy
      in sqrt distSq)"

text \<open>
  Particle \<open>i\<close> as it stands in its own iteration right after lines 119 to 122, before the
  wall collisions: the particles before it in the array have already been updated.
\<close>

definition integrated :: "canvas \<Rightarrow> real \<Rightarrow> real \<Rightarrow> particle list \<Rightarrow> nat \<Rightarrow> particle" where
  "integrated c gravity electrostatics prevParticles i =
     (let newParticles = foldl (update_particle c gravity electrostatics) prevParticles [0..<i]
      in integrate_particle (particle_acceleration gravity electrostatics newParticles i)
           (newParticles ! i))"

subsection \<open>ProjectileMotion (the second component of InclinedPlane.tsx)\<close>

record sample =
  s_time :: real
  s_x :: real
  s_y :: real

definition trajectory_point :: "real \<Rightarrow> real \<Rightarrow> real \<Rightarrow> real \<Rightarrow> nat \<Rightarrow> sample" where
  "trajectory_point v0x v0y height timeOfFlight i =
     (let t = (real i / 100) * timeOfFlight;
          x = v0x * t;
          y = height + v0y * t - 0.5 * GRAVITY * t ^ 2
      in \<lparr>s_time = t, s_x = x, s_y = y\<rparr>)"

definition trajectoryData :: "real \<Rightarrow> real \<Rightarrow> real \<Rightarrow> sample list" where
  "trajectoryData vel angle_deg height =
     (let angleRad = (angle_deg * pi) / 180;
          v0x = vel * cos angleRad;
          v0y = vel * sin angleRad;
          timeOfFlight = (v0y + sqrt (v0y ^ 2 + 2 * GRAVITY * height)) / GRAVITY;
          data = filter (\<lambda>s. s_y s \<ge> 0)
                   (map (trajectory_point v0x v0y height timeOfFlight) [0..<101]);
          finalX = v0x * timeOfFlight
      in data @ [\<lparr>s_time = timeOfFlight, s_x = finalX, s_y = 0\<rparr>])"

record projectile_results =
  r_maxHeight :: real
  r_range :: real
  r_timeOfFlight :: real

definition projectile_calculations :: "real \<Rightarrow> real \<Rightarrow> real \<Rightarrow> projectile_results" where
  "projectile_calculations vel angle_deg height =
     (let angleRad = (angle_deg * pi) / 180;
          v0y = vel * sin angleRad;
          timeToMaxHeight = v0y / GRAVITY;
          maxH = height + (v0y ^ 2) / (2 * GRAVITY);
          tof = (v0y + sqrt (v0y ^ 2 + 2 * GRAVITY * height)) / GRAVITY;
          rng = vel * cos angleRad * tof
      in \<lparr>r_maxHeight = maxH, r_range = rng, r_timeOfFlight = tof\<rparr>)"

text \<open>The height of the analytic trajectory at time \<open>t\<close>, as line 279 computes it.\<close>

definition projectile_y :: "real \<Rightarrow> real \<Rightarrow> real \<Rightarrow> real \<Rightarrow> real" where
  "projectile_y vel angle_deg height t =
     height + vel * sin ((angle_deg * pi) / 180) * t - 0.5 * GRAVITY * t ^ 2"

text \<open>
  The state of ProjectileMotion that \<open>handleReset\<close> (lines 357 to 365) writes, with the
  sound switch and the start-time ref it leaves alone; \<open>playSound\<close> changes none of it. The
  handler is modelled by itself, without the effect that a change of \<open>isRunning\<close> triggers.
\<close>

record projectile_demo = run_flag +
  proj_velocity :: real
  proj_angle :: real
  proj_height :: real
  animationProgress :: real
  lastProgressRef :: real
  isSoundEnabled :: bool
  startTimeRef :: "real option"


section \<open>Properties\<close>

subsection \<open>The clock: what a tick feeds to the integrator\<close>

lemma pendulum_animate_time:
  "0 < lastUpdateTime st \<Longrightarrow>
   time (pendulum_animate g len st ts) = time st + (ts - lastUpdateTime st) / 1000"
  by (simp add: pendulum_animate_def pendulum_integrate_def pendulum_deltaTime_def Let_def)

lemma incline_animate_time:
  "0 < lastUpdateTime (simulationState d) \<Longrightarrow>
   time (simulationState (incline_animate a d ts)) =
     time (simulationState d) + (ts - lastUpdateTime (simulationState d)) / 1000"
  by (simp add: incline_animate_def incline_integrate_def incline_deltaTime_def Let_def)

lemma mru_animate_elapsed:
  "elapsedTime (mru_animate m ts) = min (totalTime m) (elapsedTime m + mru_deltaTime m ts)"
  by (simp add: mru_animate_def Let_def min_def)

lemma mruv_animate_elapsed:
  "elapsedTime (mruv_animate v ts) = min (totalTime v) (elapsedTime v + mruv_deltaTime v ts)"
  by (simp add: mruv_animate_def Let_def min_def)

lemma incline_animate_state:
  "0 < lastUpdateTime (simulationState d) \<Longrightarrow>
   incline_animate a d ts =
     (incline_integrate a ((ts - lastUpdateTime (simulationState d)) / 1000) d)
       \<lparr>simulationState :=
          (simulationState (incline_integrate a ((ts - lastUpdateTime (simulationState d)) / 1000) d))
            \<lparr>lastUpdateTime := ts\<rparr>\<rparr>"
  by (simp add: incline_animate_def incline_deltaTime_def Let_def)

lemma incline_animate_velocity:
  "0 < lastUpdateTime (simulationState d) \<Longrightarrow>
   velocity (simulationState (incline_animate a d ts)) =
     velocity (simulationState d) + a * ((ts - lastUpdateTime (simulationState d)) / 1000)"
  by (simp add: incline_animate_def incline_integrate_def incline_deltaTime_def Let_def)

lemma incline_animate_position:
  "0 < lastUpdateTime (simulationState d) \<Longrightarrow>
   position (simulationState (incline_animate a d ts)) =
     min maxPosition (position (simulationState d)
       + (velocity (simulationState d) + a * ((ts - lastUpdateTime (simulationState d)) / 1000))
         * ((ts - lastUpdateTime (simulationState d)) / 1000))"
  by (simp add: incline_animate_def incline_integrate_def incline_deltaTime_def Let_def min_def)

lemma pendulum_animate_state:
  "0 < lastUpdateTime st \<Longrightarrow>
   pendulum_animate g len st ts =
     (pendulum_integrate g len ((ts - lastUpdateTime st) / 1000) st)\<lparr>lastUpdateTime := ts\<rparr>"
  by (simp add: pendulum_animate_def pendulum_deltaTime_def)

lemma pendulum_animate_angularVelocity:
  "0 < lastUpdateTime st \<Longrightarrow>
   angularVelocity (pendulum_animate g len st ts) =
     (angularVelocity st + (- (g / len) * angle st) * ((ts - lastUpdateTime st) / 1000)) * 0.999"
  by (simp add: pendulum_animate_state pendulum_integrate_def Let_def)

lemma pendulum_animate_angle:
  "0 < lastUpdateTime st \<Longrightarrow>
   angle (pendulum_animate g len st ts) =
     angle st + (angularVelocity st + (- (g / len) * angle st) * ((ts - lastUpdateTime st) / 1000))
       * 0.999 * ((ts - lastUpdateTime st) / 1000)"
  by (simp add: pendulum_animate_state pendulum_integrate_def Let_def)

lemma mru_animate_state:
  "lastTimeRef m = Some l \<Longrightarrow>
   mru_animate m ts =
     (if elapsedTime m + (ts - l) / 1000 \<ge> totalTime m
      then m\<lparr>isRunning := False, elapsedTime := totalTime m, lastTimeRef := Some ts\<rparr>
      else m\<lparr>elapsedTime := elapsedTime m + (ts - l) / 1000, lastTimeRef := Some ts\<rparr>)"
  by (simp add: mru_animate_def mru_deltaTime_def Let_def)

lemma mruv_animate_state:
  "lastTimeRef v = Some l \<Longrightarrow>
   mruv_animate v ts =
     (if elapsedTime v + (ts - l) / 1000 \<ge> totalTime v
      then v\<lparr>isRunning := False, elapsedTime := totalTime v, lastTimeRef := Some ts\<rparr>
      else v\<lparr>elapsedTime := elapsedTime v + (ts - l) / 1000, lastTimeRef := Some ts\<rparr>)"
  by (simp add: mruv_animate_def mruv_deltaTime_def Let_def)

lemma mru_step_up_to_remaining:
  assumes "lastTimeRef m = Some l" and "B < totalTime m - elapsedTime m"
  shows "\<exists>ts'. l \<le> ts' \<and> B < elapsedTime (mru_animate m ts') - elapsedTime m"
proof (intro exI conjI)
  show "l \<le> l + 1000 * max 0 (totalTime m - elapsedTime m)" by simp
  have "elapsedTime (mru_animate m (l + 1000 * max 0 (totalTime m - elapsedTime m))) = totalTime m"
    using assms(1) by (simp add: mru_animate_elapsed mru_deltaTime_def min_def max_def)
  with assms(2)
  show "B < elapsedTime (mru_animate m (l + 1000 * max 0 (totalTime m - elapsedTime m)))
            - elapsedTime m"
    by simp
qed

lemma mruv_step_up_to_remaining:
  assumes "lastTimeRef v = Some l" and "B < totalTime v - elapsedTime v"
  shows "\<exists>ts'. l \<le> ts' \<and> B < elapsedTime (mruv_animate v ts') - elapsedTime v"
proof (intro exI conjI)
  show "l \<le> l + 1000 * max 0 (totalTime v - elapsedTime v)" by simp
  have "elapsedTime (mruv_animate v (l + 1000 * max 0 (totalTime v - elapsedTime v))) = totalTime v"
    using assms(1) by (simp add: mruv_animate_elapsed mruv_deltaTime_def min_def max_def)
  with assms(2)
  show "B < elapsedTime (mruv_animate v (l + 1000 * max 0 (totalTime v - elapsedTime v)))
            - elapsedTime v"
    by simp
qed

lemma pendulum_step_unbounded:
  assumes "0 < lastUpdateTime st"
  shows "\<exists>ts'. lastUpdateTime st \<le> ts' \<and> B < time (pendulum_animate g len st ts') - time st"
proof (intro exI conjI)
  show "lastUpdateTime st \<le> lastUpdateTime st + 1000 * (\<bar>B\<bar> + 1)" by simp
  show "B < time (pendulum_animate g len st (lastUpdateTime st + 1000 * (\<bar>B\<bar> + 1))) - time st"
    using assms by (simp add: pendulum_animate_time)
qed

lemma incline_step_unbounded:
  assumes "0 < lastUpdateTime (simulationState d)"
  shows "\<exists>ts'. lastUpdateTime (simulationState d) \<le> ts'
     \<and> B < time (simulationState (incline_animate a d ts')) - time (simulationState d)"
proof (intro exI conjI)
  show "lastUpdateTime (simulationState d) \<le> lastUpdateTime (simulationState d) + 1000 * (\<bar>B\<bar> + 1)"
    by simp
  show "B < time (simulationState (incline_animate a d
        (lastUpdateTime (simulationState d) + 1000 * (\<bar>B\<bar> + 1)))) - time (simulationState d)"
    using assms by (simp add: incline_animate_time)
qed

lemma mru_delta_unbounded:
  assumes "lastTimeRef m = Some l"
  shows "\<exists>ts'. l \<le> ts' \<and> B < mru_deltaTime m ts'"
proof (intro exI conjI)
  show "l \<le> l + 1000 * (\<bar>B\<bar> + 1)" by simp
  show "B < mru_deltaTime m (l + 1000 * (\<bar>B\<bar> + 1))"
    using assms by (simp add: mru_deltaTime_def)
qed

lemma mruv_delta_unbounded:
  assumes "lastTimeRef v = Some l"
  shows "\<exists>ts'. l \<le> ts' \<and> B < mruv_deltaTime v ts'"
proof (intro exI conjI)
  show "l \<le> l + 1000 * (\<bar>B\<bar> + 1)" by simp
  show "B < mruv_deltaTime v (l + 1000 * (\<bar>B\<bar> + 1))"
    using assms by (simp add: mruv_deltaTime_def)
qed

text \<open>
  Claim C1, as stated: the delta-time fed to the integration step is clamped to a finite
  upper bound. It fails: a pendulum whose baseline is 1000 ms and whose next frame arrives
  one hour later (timestamp 3601000 ms) advances its time by 3600 s in that one step, and
  no bound holds for all timestamps. The incline does the same (its velocity grows by
  3 * 3600 in that step), and so do MRU and MRUV: their delta-time for that frame is 3600 s,
  and a frame 25 s after the baseline advances the elapsed time by 25 s in one step.
\<close>

theorem delta_time_clamp_counterexample:
  "time (pendulum_animate 9.81 2
      \<lparr>time = 0, lastUpdateTime = 1000, angle = 1/2, angularVelocity = 0\<rparr> 3601000) = 3600
   \<and> \<not> (\<exists>B. \<forall>ts. time (pendulum_animate 9.81 2
      \<lparr>time = 0, lastUpdateTime = 1000, angle = 1/2, angularVelocity = 0\<rparr> ts) \<le> B)
   \<and> time (simulationState (incline_animate 3 \<lparr>isRunning = True, simulationState =
        \<lparr>time = 0, lastUpdateTime = 1000, position = 0, velocity = 0\<rparr>\<rparr> 3601000)) = 3600
   \<and> velocity (simulationState (incline_animate 3 \<lparr>isRunning = True, simulationState =
        \<lparr>time = 0, lastUpdateTime = 1000, position = 0, velocity = 0\<rparr>\<rparr> 3601000)) = 10800
   \<and> mru_deltaTime \<lparr>isRunning = True, elapsedTime = 0, lastTimeRef = Some 1000,
        initialPosition = 0, totalTime = 30, mru_velocity = 10\<rparr> 3601000 = 3600
   \<and> elapsedTime (mru_animate \<lparr>isRunning = True, elapsedTime = 0, lastTimeRef = Some 1000,
        initialPosition = 0, totalTime = 30, mru_velocity = 10\<rparr> 26000) = 25
   \<and> mruv_deltaTime \<lparr>isRunning = True, elapsedTime = 0, lastTimeRef = Some 1000,
        initialPosition = 0, totalTime = 30, initialVelocity = 5, acceleration = 2\<rparr> 3601000 = 3600
   \<and> elapsedTime (mruv_animate \<lparr>isRunning = True, elapsedTime = 0, lastTimeRef = Some 1000,
        initialPosition = 0, totalTime = 30, initialVelocity = 5, acceleration = 2\<rparr> 26000) = 25"
proof (intro conjI)
  show "time (pendulum_animate 9.81 2
      \<lparr>time = 0, lastUpdateTime = 1000, angle = 1/2, angularVelocity = 0\<rparr> 3601000) = 3600"
    by (simp add: pendulum_animate_time)
next
  show "\<not> (\<exists>B. \<forall>ts. time (pendulum_animate 9.81 2
      \<lparr>time = 0, lastUpdateTime = 1000, angle = 1/2, angularVelocity = 0\<rparr> ts) \<le> B)"
  proof
    assume "\<exists>B. \<forall>ts. time (pendulum_animate 9.81 2
      \<lparr>time = 0, lastUpdateTime = 1000, angle = 1/2, angularVelocity = 0\<rparr> ts) \<le> B"
    then obtain B where b: "\<And>ts. time (pendulum_animate 9.81 2
      \<lparr>time = 0, lastUpdateTime = 1000, angle = 1/2, angularVelocity = 0\<rparr> ts) \<le> B"
      by blast
    have "time (pendulum_animate 9.81 2
      \<lparr>time = 0, lastUpdateTime = 1000, angle = 1/2, angularVelocity = 0\<rparr>
        (1000 * (B + 1) + 1000)) = B + 1"
      by (simp add: pendulum_animate_time)
    with b [of "1000 * (B + 1) + 1000"] show False by simp
  qed
next
  show "time (simulationState (incline_animate 3 \<lparr>isRunning = True, simulationState =
        \<lparr>time = 0, lastUpdateTime = 1000, position = 0, velocity = 0\<rparr>\<rparr> 3601000)) = 3600"
    by (simp add: incline_animate_time)
  show "velocity (simulationState (incline_animate 3 \<lparr>isRunning = True, simulationState =
        \<lparr>time = 0, lastUpdateTime = 1000, position = 0, velocity = 0\<rparr>\<rparr> 3601000)) = 10800"
    by (simp add: incline_animate_velocity)
  show "mru_deltaTime \<lparr>isRunning = True, elapsedTime = 0, lastTimeRef = Some 1000,
        initialPosition = 0, totalTime = 30, mru_velocity = 10\<rparr> 3601000 = 3600"
    by (simp add: mru_deltaTime_def)
  show "elapsedTime (mru_animate \<lparr>isRunning = True, elapsedTime = 0, lastTimeRef = Some 1000,
        initialPosition = 0, totalTime = 30, mru_velocity = 10\<rparr> 26000) = 25"
    by (simp add: mru_animate_elapsed mru_deltaTime_def)
  show "mruv_deltaTime \<lparr>isRunning = True, elapsedTime = 0, lastTimeRef = Some 1000,
        initialPosition = 0, totalTime = 30, initialVelocity = 5, acceleration = 2\<rparr> 3601000 = 3600"
    by (simp add: mruv_deltaTime_def)
  show "elapsedTime (mruv_animate \<lparr>isRunning = True, elapsedTime = 0, lastTimeRef = Some 1000,
        initialPosition = 0, totalTime = 30, initialVelocity = 5, acceleration = 2\<rparr> 26000) = 25"
    by (simp add: mruv_animate_elapsed mruv_deltaTime_def)
qed

text \<open>
  Claim C1, amended: on a tick that has a baseline, the delta-time is exactly
  (timestamp - baseline) / 1000, non-negative whenever the timestamp is not earlier than the
  baseline, and not clamped. The pendulum and the incline integrate their whole state with
  it (angular velocity, angle and time; velocity, position up to the track length, and time),
  and for every bound \<open>B\<close> a later timestamp makes a single step advance the time by more
  than \<open>B\<close>. MRU and MRUV add it to the elapsed time, which stops at the total time: their
  delta-time exceeds every bound for a late enough timestamp, and a single step advances the
  elapsed time by whatever remains to the total time when the gap is that long.
\<close>

theorem delta_time_unclamped:
  fixes st :: pendulum_state and d :: "incline_state ref_demo"
    and m :: mru_demo and v :: mruv_demo
  assumes "0 < lastUpdateTime st" and "0 < lastUpdateTime (simulationState d)"
    and "lastTimeRef m = Some l" and "lastTimeRef v = Some l'"
  shows "pendulum_deltaTime st ts = (ts - lastUpdateTime st) / 1000
       \<and> incline_deltaTime (simulationState d) ts =
           (ts - lastUpdateTime (simulationState d)) / 1000
       \<and> mru_deltaTime m ts = (ts - l) / 1000
       \<and> mruv_deltaTime v ts = (ts - l') / 1000
       \<and> pendulum_animate g len st ts =
           (pendulum_integrate g len ((ts - lastUpdateTime st) / 1000) st)\<lparr>lastUpdateTime := ts\<rparr>
       \<and> angularVelocity (pendulum_animate g len st ts) =
           (angularVelocity st + (- (g / len) * angle st) * ((ts - lastUpdateTime st) / 1000)) * 0.999
       \<and> angle (pendulum_animate g len st ts) =
           angle st + (angularVelocity st
              + (- (g / len) * angle st) * ((ts - lastUpdateTime st) / 1000))
             * 0.999 * ((ts - lastUpdateTime st) / 1000)
       \<and> time (pendulum_animate g len st ts) = time st + (ts - lastUpdateTime st) / 1000
       \<and> incline_animate a d ts =
           (incline_integrate a ((ts - lastUpdateTime (simulationState d)) / 1000) d)
             \<lparr>simulationState :=
                (simulationState
                   (incline_integrate a ((ts - lastUpdateTime (simulationState d)) / 1000) d))
                  \<lparr>lastUpdateTime := ts\<rparr>\<rparr>
       \<and> velocity (simulationState (incline_animate a d ts)) =
           velocity (simulationState d) + a * ((ts - lastUpdateTime (simulationState d)) / 1000)
       \<and> position (simulationState (incline_animate a d ts)) =
           min maxPosition (position (simulationState d)
             + (velocity (simulationState d)
                 + a * ((ts - lastUpdateTime (simulationState d)) / 1000))
               * ((ts - lastUpdateTime (simulationState d)) / 1000))
       \<and> time (simulationState (incline_animate a d ts)) =
           time (simulationState d) + (ts - lastUpdateTime (simulationState d)) / 1000
       \<and> mru_animate m ts =
           (if elapsedTime m + (ts - l) / 1000 \<ge> totalTime m
            then m\<lparr>isRunning := False, elapsedTime := totalTime m, lastTimeRef := Some ts\<rparr>
            else m\<lparr>elapsedTime := elapsedTime m + (ts - l) / 1000, lastTimeRef := Some ts\<rparr>)
       \<and> elapsedTime (mru_animate m ts) = min (totalTime m) (elapsedTime m + (ts - l) / 1000)
       \<and> mruv_animate v ts =
           (if elapsedTime v + (ts - l') / 1000 \<ge> totalTime v
            then v\<lparr>isRunning := False, elapsedTime := totalTime v, lastTimeRef := Some ts\<rparr>
            else v\<lparr>elapsedTime := elapsedTime v + (ts - l') / 1000, lastTimeRef := Some ts\<rparr>)
       \<and> elapsedTime (mruv_animate v ts) = min (totalTime v) (elapsedTime v + (ts - l') / 1000)
       \<and> (lastUpdateTime st \<le> ts \<longrightarrow> 0 \<le> pendulum_deltaTime st ts)
       \<and> (lastUpdateTime (simulationState d) \<le> ts \<longrightarrow>
            0 \<le> incline_deltaTime (simulationState d) ts)
       \<and> (l \<le> ts \<longrightarrow> 0 \<le> mru_deltaTime m ts)
       \<and> (l' \<le> ts \<longrightarrow> 0 \<le> mruv_deltaTime v ts)
       \<and> (\<exists>ts'. lastUpdateTime st \<le> ts' \<and> B < time (pendulum_animate g len st ts') - time st)
       \<and> (\<exists>ts'. lastUpdateTime (simulationState d) \<le> ts'
            \<and> B < time (simulationState (incline_animate a d ts')) - time (simulationState d))
       \<and> (\<exists>ts'. l \<le> ts' \<and> B < mru_deltaTime m ts')
       \<and> (\<exists>ts'. l' \<le> ts' \<and> B < mruv_deltaTime v ts')
       \<and> (B < totalTime m - elapsedTime m \<longrightarrow>
            (\<exists>ts'. l \<le> ts' \<and> B < elapsedTime (mru_animate m ts') - elapsedTime m))
       \<and> (B < totalTime v - elapsedTime v \<longrightarrow>
            (\<exists>ts'. l' \<le> ts' \<and> B < elapsedTime (mruv_animate v ts') - elapsedTime v))"
proof (intro conjI impI)
  show "pendulum_deltaTime st ts = (ts - lastUpdateTime st) / 1000"
    by (simp add: pendulum_deltaTime_def)
  show "incline_deltaTime (simulationState d) ts =
           (ts - lastUpdateTime (simulationState d)) / 1000"
    by (simp add: incline_deltaTime_def)
  show "mru_deltaTime m ts = (ts - l) / 1000"
    using assms(3) by (simp add: mru_deltaTime_def)
  show "mruv_deltaTime v ts = (ts - l') / 1000"
    using assms(4) by (simp add: mruv_deltaTime_def)
  show "pendulum_animate g len st ts =
           (pendulum_integrate g len ((ts - lastUpdateTime st) / 1000) st)\<lparr>lastUpdateTime := ts\<rparr>"
    using assms(1) by (rule pendulum_animate_state)
  show "angularVelocity (pendulum_animate g len st ts) =
           (angularVelocity st + (- (g / len) * angle st) * ((ts - lastUpdateTime st) / 1000)) * 0.999"
    using assms(1) by (rule pendulum_animate_angularVelocity)
  show "angle (pendulum_animate g len st ts) =
           angle st + (angularVelocity st
              + (- (g / len) * angle st) * ((ts - lastUpdateTime st) / 1000))
             * 0.999 * ((ts - lastUpdateTime st) / 1000)"
    using assms(1) by (rule pendulum_animate_angle)
  show "time (pendulum_animate g len st ts) = time st + (ts - lastUpdateTime st) / 1000"
    using assms(1) by (rule pendulum_animate_time)
  show "incline_animate a d ts =
           (incline_integrate a ((ts - lastUpdateTime (simulationState d)) / 1000) d)
             \<lparr>simulationState :=
                (simulationState
                   (incline_integrate a ((ts - lastUpdateTime (simulationState d)) / 1000) d))
                  \<lparr>lastUpdateTime := ts\<rparr>\<rparr>"
    using assms(2) by (rule incline_animate_state)
  show "velocity (simulationState (incline_animate a d ts)) =
           velocity (simulationState d) + a * ((ts - lastUpdateTime (simulationState d)) / 1000)"
    using assms(2) by (rule incline_animate_velocity)
  show "position (simulationState (incline_animate a d ts)) =
           min maxPosition (position (simulationState d)
             + (velocity (simulationState d)
                 + a * ((ts - lastUpdateTime (simulationState d)) / 1000))
               * ((ts - lastUpdateTime (simulationState d)) / 1000))"
    using assms(2) by (rule incline_animate_position)
  show "time (simulationState (incline_animate a d ts)) =
           time (simulationState d) + (ts - lastUpdateTime (simulationState d)) / 1000"
    using assms(2) by (rule incline_animate_time)
  show "mru_animate m ts =
           (if elapsedTime m + (ts - l) / 1000 \<ge> totalTime m
            then m\<lparr>isRunning := False, elapsedTime := totalTime m, lastTimeRef := Some ts\<rparr>
            else m\<lparr>elapsedTime := elapsedTime m + (ts - l) / 1000, lastTimeRef := Some ts\<rparr>)"
    using assms(3) by (rule mru_animate_state)
  show "elapsedTime (mru_animate m ts) = min (totalTime m) (elapsedTime m + (ts - l) / 1000)"
    using assms(3) by (simp add: mru_animate_elapsed mru_deltaTime_def)
  show "mruv_animate v ts =
           (if elapsedTime v + (ts - l') / 1000 \<ge> totalTime v
            then v\<lparr>isRunning := False, elapsedTime := totalTime v, lastTimeRef := Some ts\<rparr>
            else v\<lparr>elapsedTime := elapsedTime v + (ts - l') / 1000, lastTimeRef := Some ts\<rparr>)"
    using assms(4) by (rule mruv_animate_state)
  show "elapsedTime (mruv_animate v ts) = min (totalTime v) (elapsedTime v + (ts - l') / 1000)"
    using assms(4) by (simp add: mruv_animate_elapsed mruv_deltaTime_def)
  show "\<exists>ts'. lastUpdateTime st \<le> ts' \<and> B < time (pendulum_animate g len st ts') - time st"
    using assms(1) by (rule pendulum_step_unbounded)
  show "\<exists>ts'. lastUpdateTime (simulationState d) \<le> ts'
            \<and> B < time (simulationState (incline_animate a d ts')) - time (simulationState d)"
    using assms(2) by (rule incline_step_unbounded)
  show "\<exists>ts'. l \<le> ts' \<and> B < mru_deltaTime m ts'"
    using assms(3) by (rule mru_delta_unbounded)
  show "\<exists>ts'. l' \<le> ts' \<and> B < mruv_deltaTime v ts'"
    using assms(4) by (rule mruv_delta_unbounded)
next
  assume "lastUpdateTime st \<le> ts"
  then show "0 \<le> pendulum_deltaTime st ts" by (simp add: pendulum_deltaTime_def)
next
  assume "lastUpdateTime (simulationState d) \<le> ts"
  then show "0 \<le> incline_deltaTime (simulationState d) ts" by (simp add: incline_deltaTime_def)
next
  assume "l \<le> ts"
  then show "0 \<le> mru_deltaTime m ts" using assms(3) by (simp add: mru_deltaTime_def)
next
  assume "l' \<le> ts"
  then show "0 \<le> mruv_deltaTime v ts" using assms(4) by (simp add: mruv_deltaTime_def)
next
  assume "B < totalTime m - elapsedTime m"
  with assms(3) show "\<exists>ts'. l \<le> ts' \<and> B < elapsedTime (mru_animate m ts') - elapsedTime m"
    by (rule mru_step_up_to_remaining)
next
  assume "B < totalTime v - elapsedTime v"
  with assms(4) show "\<exists>ts'. l' \<le> ts' \<and> B < elapsedTime (mruv_animate v ts') - elapsedTime v"
    by (rule mruv_step_up_to_remaining)
qed

theorem delta_time_unclamped_witness:
  "0 < lastUpdateTime \<lparr>time = 0, lastUpdateTime = 1000, angle = 1/2, angularVelocity = 0\<rparr>
   \<and> lastTimeRef \<lparr>isRunning = True, elapsedTime = 0, lastTimeRef = Some 1000,
        initialPosition = 0, totalTime = 30, mru_velocity = 10\<rparr> = Some 1000
   \<and> pendulum_animate 9.81 2
        \<lparr>time = 0, lastUpdateTime = 1000, angle = 1/2, angularVelocity = 0\<rparr> 3601000
       = (pendulum_integrate 9.81 2 3600
            \<lparr>time = 0, lastUpdateTime = 1000, angle = 1/2, angularVelocity = 0\<rparr>)
            \<lparr>lastUpdateTime := 3601000\<rparr>
   \<and> velocity (simulationState (incline_animate 3 \<lparr>isRunning = True, simulationState =
        \<lparr>time = 0, lastUpdateTime = 1000, position = 0, velocity = 0\<rparr>\<rparr> 3601000)) = 10800
   \<and> position (simulationState (incline_animate 3 \<lparr>isRunning = True, simulationState =
        \<lparr>time = 0, lastUpdateTime = 1000, position = 0, velocity = 0\<rparr>\<rparr> 3601000)) = 15
   \<and> time (simulationState (incline_animate 3 \<lparr>isRunning = True, simulationState =
        \<lparr>time = 0, lastUpdateTime = 1000, position = 0, velocity = 0\<rparr>\<rparr> 3601000)) = 3600
   \<and> elapsedTime (mru_animate \<lparr>isRunning = True, elapsedTime = 0, lastTimeRef = Some 1000,
        initialPosition = 0, totalTime = 30, mru_velocity = 10\<rparr> 3601000) = 30
   \<and> elapsedTime (mruv_animate \<lparr>isRunning = True, elapsedTime = 0, lastTimeRef = Some 1000,
        initialPosition = 0, totalTime = 30, initialVelocity = 5, acceleration = 2\<rparr> 3601000) = 30
   \<and> (25::real) < 30 - 0
   \<and> (\<exists>ts'. 1000 \<le> ts' \<and> 25 < elapsedTime (mru_animate \<lparr>isRunning = True, elapsedTime = 0,
        lastTimeRef = Some 1000, initialPosition = 0, totalTime = 30, mru_velocity = 10\<rparr> ts') - 0)"
proof -
  note th = delta_time_unclamped
    [where st = "\<lparr>time = 0, lastUpdateTime = 1000, angle = 1/2, angularVelocity = 0\<rparr>"
       and d = "\<lparr>isRunning = True, simulationState =
          \<lparr>time = 0, lastUpdateTime = 1000, position = 0, velocity = 0\<rparr>\<rparr>"
       and m = "\<lparr>isRunning = True, elapsedTime = 0, lastTimeRef = Some 1000,
          initialPosition = 0, totalTime = 30, mru_velocity = 10\<rparr>"
       and v = "\<lparr>isRunning = True, elapsedTime = 0, lastTimeRef = Some 1000,
          initialPosition = 0, totalTime = 30, initialVelocity = 5, acceleration = 2\<rparr>"
       and l = 1000 and l' = 1000 and g = "9.81" and len = 2 and a = 3 and ts = 3601000
       and B = 25]
  show ?thesis using th
    by (simp add: pendulum_animate_def pendulum_integrate_def pendulum_deltaTime_def
        incline_animate_def incline_integrate_def incline_deltaTime_def
        mru_animate_def mru_deltaTime_def mruv_animate_def mruv_deltaTime_def
        Let_def maxPosition_def)
qed

subsection \<open>A step with delta-time zero\<close>




subsection \<open>The first tick after a start\<close>




subsection \<open>The integration scheme of a tick\<close>

text \<open>
  Claim C5, as stated: each tick of pendulum, incline, MRU and MRUV updates the velocity from
  the acceleration and then the position from the updated velocity. It fails for MRUV: from
  rest at the origin with acceleration 2, a tick of 1 s gives velocity 2 and position 1,
  whereas the old position plus the updated velocity times the delta-time is 2.
\<close>

theorem semi_implicit_euler_counterexample:
  "mruv_deltaTime \<lparr>isRunning = True, elapsedTime = 0, lastTimeRef = Some 0, initialPosition = 0,
      totalTime = 10, initialVelocity = 0, acceleration = 2\<rparr> 1000 = 1
   \<and> mruv_currentValues \<lparr>isRunning = True, elapsedTime = 0, lastTimeRef = Some 0,
      initialPosition = 0, totalTime = 10, initialVelocity = 0, acceleration = 2\<rparr> = (0, 0)
   \<and> mruv_currentValues (mruv_animate \<lparr>isRunning = True, elapsedTime = 0, lastTimeRef = Some 0,
      initialPosition = 0, totalTime = 10, initialVelocity = 0, acceleration = 2\<rparr> 1000) = (1, 2)
   \<and> fst (mruv_currentValues (mruv_animate \<lparr>isRunning = True, elapsedTime = 0,
        lastTimeRef = Some 0, initialPosition = 0, totalTime = 10, initialVelocity = 0,
        acceleration = 2\<rparr> 1000))
     \<noteq> fst (mruv_currentValues \<lparr>isRunning = True, elapsedTime = 0, lastTimeRef = Some 0,
        initialPosition = 0, totalTime = 10, initialVelocity = 0, acceleration = 2\<rparr>)
       + snd (mruv_currentValues (mruv_animate \<lparr>isRunning = True, elapsedTime = 0,
          lastTimeRef = Some 0, initialPosition = 0, totalTime = 10, initialVelocity = 0,
          acceleration = 2\<rparr> 1000))
         * mruv_deltaTime \<lparr>isRunning = True, elapsedTime = 0, lastTimeRef = Some 0,
            initialPosition = 0, totalTime = 10, initialVelocity = 0, acceleration = 2\<rparr> 1000"
  by (simp add: mruv_deltaTime_def mruv_currentValues_def mruv_animate_def Let_def)

text \<open>
  Claim C5, amended: each tick of the incline and of the pendulum updates the velocity from
  the acceleration, then the position from the updated velocity, then accumulates the time
  (the pendulum multiplies the updated velocity by 0.999 before it moves the angle, the
  incline stops the position at the track length). MRU and MRUV do not integrate: a tick only
  accumulates the elapsed time, and position and velocity are the closed forms at that time,
  so that a tick short of the total time moves MRU by v dt and MRUV by v dt + a dt dt / 2 with
  the velocity v before the tick.
\<close>

theorem tick_integration_scheme:
  "(velocity (simulationState (incline_integrate a dt d)) = velocity (simulationState d) + a * dt
    \<and> position (simulationState (incline_integrate a dt d)) =
        min maxPosition (position (simulationState d)
          + velocity (simulationState (incline_integrate a dt d)) * dt)
    \<and> time (simulationState (incline_integrate a dt d)) = time (simulationState d) + dt)
   \<and> (angularVelocity (pendulum_integrate g len dt st) =
        (angularVelocity st + (- (g / len) * angle st) * dt) * 0.999
    \<and> angle (pendulum_integrate g len dt st) =
        angle st + angularVelocity (pendulum_integrate g len dt st) * dt
    \<and> time (pendulum_integrate g len dt st) = time st + dt)
   \<and> (elapsedTime m + mru_deltaTime m ts < totalTime m \<longrightarrow>
        elapsedTime (mru_animate m ts) = elapsedTime m + mru_deltaTime m ts
        \<and> mru_currentPosition (mru_animate m ts) =
            mru_currentPosition m + mru_velocity m * mru_deltaTime m ts)
   \<and> (elapsedTime v + mruv_deltaTime v ts < totalTime v \<longrightarrow>
        elapsedTime (mruv_animate v ts) = elapsedTime v + mruv_deltaTime v ts
        \<and> snd (mruv_currentValues (mruv_animate v ts)) =
            snd (mruv_currentValues v) + acceleration v * mruv_deltaTime v ts
        \<and> fst (mruv_currentValues (mruv_animate v ts)) =
            fst (mruv_currentValues v) + snd (mruv_currentValues v) * mruv_deltaTime v ts
              + acceleration v * (mruv_deltaTime v ts)\<^sup>2 / 2)"
proof (intro conjI impI)
  show "velocity (simulationState (incline_integrate a dt d)) = velocity (simulationState d) + a * dt"
    by (simp add: incline_integrate_def Let_def)
  show "position (simulationState (incline_integrate a dt d)) =
        min maxPosition (position (simulationState d)
          + velocity (simulationState (incline_integrate a dt d)) * dt)"
    by (simp add: incline_integrate_def Let_def min_def)
  show "time (simulationState (incline_integrate a dt d)) = time (simulationState d) + dt"
    by (simp add: incline_integrate_def Let_def)
  show "angularVelocity (pendulum_integrate g len dt st) =
        (angularVelocity st + (- (g / len) * angle st) * dt) * 0.999"
    by (simp add: pendulum_integrate_def Let_def)
  show "angle (pendulum_integrate g len dt st) =
        angle st + angularVelocity (pendulum_integrate g len dt st) * dt"
    by (simp add: pendulum_integrate_def Let_def)
  show "time (pendulum_integrate g len dt st) = time st + dt"
    by (simp add: pendulum_integrate_def Let_def)
next
  assume h: "elapsedTime m + mru_deltaTime m ts < totalTime m"
  then show e: "elapsedTime (mru_animate m ts) = elapsedTime m + mru_deltaTime m ts"
    by (simp add: mru_animate_def Let_def)
  have "mru_currentPosition (mru_animate m ts) =
      initialPosition m + mru_velocity m * elapsedTime (mru_animate m ts)"
    by (simp add: mru_currentPosition_def mru_animate_def Let_def)
  then show "mru_currentPosition (mru_animate m ts) =
            mru_currentPosition m + mru_velocity m * mru_deltaTime m ts"
    by (simp add: e mru_currentPosition_def algebra_simps)
next
  assume h: "elapsedTime v + mruv_deltaTime v ts < totalTime v"
  then show e: "elapsedTime (mruv_animate v ts) = elapsedTime v + mruv_deltaTime v ts"
    by (simp add: mruv_animate_def Let_def)
  have p: "initialPosition (mruv_animate v ts) = initialPosition v"
    "initialVelocity (mruv_animate v ts) = initialVelocity v"
    "acceleration (mruv_animate v ts) = acceleration v"
    by (simp_all add: mruv_animate_def Let_def)
  show "snd (mruv_currentValues (mruv_animate v ts)) =
            snd (mruv_currentValues v) + acceleration v * mruv_deltaTime v ts"
    by (simp add: mruv_currentValues_def Let_def e p algebra_simps)
  show "fst (mruv_currentValues (mruv_animate v ts)) =
            fst (mruv_currentValues v) + snd (mruv_currentValues v) * mruv_deltaTime v ts
              + acceleration v * (mruv_deltaTime v ts)\<^sup>2 / 2"
    by (simp add: mruv_currentValues_def Let_def e p algebra_simps power2_eq_square)
qed

theorem tick_integration_scheme_witness:
  "elapsedTime \<lparr>isRunning = True, elapsedTime = 0, lastTimeRef = Some 0, initialPosition = 0,
        totalTime = 10, mru_velocity = 10\<rparr>
     + mru_deltaTime \<lparr>isRunning = True, elapsedTime = 0, lastTimeRef = Some 0,
        initialPosition = 0, totalTime = 10, mru_velocity = 10\<rparr> 1000 < 10
   \<and> mru_currentPosition (mru_animate \<lparr>isRunning = True, elapsedTime = 0, lastTimeRef = Some 0,
        initialPosition = 0, totalTime = 10, mru_velocity = 10\<rparr> 1000) = 10
   \<and> mruv_currentValues (mruv_animate \<lparr>isRunning = True, elapsedTime = 0, lastTimeRef = Some 0,
        initialPosition = 0, totalTime = 10, initialVelocity = 0, acceleration = 2\<rparr> 1000) = (1, 2)
   \<and> velocity (simulationState (incline_integrate 3 (1/2) \<lparr>isRunning = True, simulationState =
        \<lparr>time = 1, lastUpdateTime = 1000, position = 3, velocity = 2\<rparr>\<rparr>)) = 7/2
   \<and> position (simulationState (incline_integrate 3 (1/2) \<lparr>isRunning = True, simulationState =
        \<lparr>time = 1, lastUpdateTime = 1000, position = 3, velocity = 2\<rparr>\<rparr>)) = 19/4
   \<and> angularVelocity (pendulum_integrate 8 2 (1/2)
        \<lparr>time = 0, lastUpdateTime = 1000, angle = 1/2, angularVelocity = 0\<rparr>) = - 0.999
   \<and> angle (pendulum_integrate 8 2 (1/2)
        \<lparr>time = 0, lastUpdateTime = 1000, angle = 1/2, angularVelocity = 0\<rparr>) = 1/2 - 0.999/2"
  using tick_integration_scheme
    [of 3 "1/2" "\<lparr>isRunning = True, simulationState =
        \<lparr>time = 1, lastUpdateTime = 1000, position = 3, velocity = 2\<rparr>\<rparr>"
        8 2 "\<lparr>time = 0, lastUpdateTime = 1000, angle = 1/2, angularVelocity = 0\<rparr>"
        "\<lparr>isRunning = True, elapsedTime = 0, lastTimeRef = Some 0, initialPosition = 0,
          totalTime = 10, mru_velocity = 10\<rparr>" 1000
        "\<lparr>isRunning = True, elapsedTime = 0, lastTimeRef = Some 0, initialPosition = 0,
          totalTime = 10, initialVelocity = 0, acceleration = 2\<rparr>"]
  by (simp add: mru_deltaTime_def mruv_deltaTime_def mru_currentPosition_def mruv_currentValues_def
      maxPosition_def incline_integrate_def pendulum_integrate_def mru_animate_def
      mruv_animate_def Let_def)

subsection \<open>The incline's acceleration\<close>

lemma GRAVITY_pos: "0 < GRAVITY"
  by (simp add: GRAVITY_def)

lemma incline_calculations_pos:
  assumes "mass * GRAVITY * sin (a * pi / 180) - \<mu> * (mass * GRAVITY * cos (a * pi / 180)) > 0"
  shows "incline_calculations a mass \<mu> = GRAVITY * (sin (a * pi / 180) - \<mu> * cos (a * pi / 180))"
proof -
  have "mass \<noteq> 0" using assms by auto
  then have "(mass * GRAVITY * sin (a * pi / 180) - \<mu> * (mass * GRAVITY * cos (a * pi / 180))) / mass
      = GRAVITY * (sin (a * pi / 180) - \<mu> * cos (a * pi / 180))"
    by (simp add: field_simps)
  with assms show ?thesis
    by (simp add: incline_calculations_def Let_def)
qed

lemma incline_calculations_zero:
  assumes "0 < mass" and "sin (a * pi / 180) \<le> \<mu> * cos (a * pi / 180)"
  shows "incline_calculations a mass \<mu> = 0"
proof -
  have g: "0 < mass * GRAVITY" using assms(1) by (simp add: GRAVITY_def)
  have "mass * GRAVITY * sin (a * pi / 180) \<le> mass * GRAVITY * (\<mu> * cos (a * pi / 180))"
    using assms(2) g by (simp only: mult_le_cancel_left_pos)
  then have "\<not> mass * GRAVITY * sin (a * pi / 180) - \<mu> * (mass * GRAVITY * cos (a * pi / 180)) > 0"
    by (simp add: algebra_simps)
  then show ?thesis
    by (simp add: incline_calculations_def Let_def)
qed

lemma deg30: "(30::real) * pi / 180 = pi / 6" by simp

lemma deg45: "(45::real) * pi / 180 = pi / 4" by simp

lemma sqrt3_bounds: "sqrt 3 < 2"
proof -
  have "sqrt 3 < sqrt 4" by (simp only: real_sqrt_less_iff)
  then show ?thesis by simp
qed

text \<open>
  Claim C7: for a block of positive mass, the acceleration is g (sin \<theta> - \<mu> cos \<theta>) whenever
  m g sin \<theta> - \<mu> m g cos \<theta> is positive, and is exactly 0 whenever sin \<theta> \<le> \<mu> cos \<theta>; for
  \<theta> = 30 degrees, m = 5 and \<mu> = 0.2 it is g (sin \<theta> - \<mu> cos \<theta>). Here \<theta> is the angle in
  radians, the slider's degrees times pi / 180.
\<close>

theorem incline_acceleration:
  assumes "0 < mass"
  shows "(mass * GRAVITY * sin (a * pi / 180) - \<mu> * (mass * GRAVITY * cos (a * pi / 180)) > 0 \<longrightarrow>
            incline_calculations a mass \<mu> = GRAVITY * (sin (a * pi / 180) - \<mu> * cos (a * pi / 180)))
       \<and> (sin (a * pi / 180) \<le> \<mu> * cos (a * pi / 180) \<longrightarrow> incline_calculations a mass \<mu> = 0)
       \<and> incline_calculations 30 5 0.2 = GRAVITY * (sin (30 * pi / 180) - 0.2 * cos (30 * pi / 180))"
proof (intro conjI impI)
  assume "mass * GRAVITY * sin (a * pi / 180) - \<mu> * (mass * GRAVITY * cos (a * pi / 180)) > 0"
  then show "incline_calculations a mass \<mu> = GRAVITY * (sin (a * pi / 180) - \<mu> * cos (a * pi / 180))"
    by (rule incline_calculations_pos)
next
  assume "sin (a * pi / 180) \<le> \<mu> * cos (a * pi / 180)"
  with assms show "incline_calculations a mass \<mu> = 0"
    by (rule incline_calculations_zero)
next
  have "5 * GRAVITY * sin (30 * pi / 180) - 0.2 * (5 * GRAVITY * cos (30 * pi / 180)) > 0"
    using sqrt3_bounds by (simp add: deg30 sin_30 cos_30 GRAVITY_def)
  then show "incline_calculations 30 5 0.2 = GRAVITY * (sin (30 * pi / 180) - 0.2 * cos (30 * pi / 180))"
    by (rule incline_calculations_pos)
qed

theorem incline_acceleration_witness:
  "(0::real) < 5
   \<and> 5 * GRAVITY * sin (30 * pi / 180) - 0.2 * (5 * GRAVITY * cos (30 * pi / 180)) > 0
   \<and> incline_calculations 30 5 0.2 = 9.81 * (1 / 2 - sqrt 3 / 10)
   \<and> sin (45 * pi / 180) \<le> 1 * cos (45 * pi / 180)
   \<and> incline_calculations 45 5 1 = 0"
proof -
  have p: "5 * GRAVITY * sin (30 * pi / 180) - 0.2 * (5 * GRAVITY * cos (30 * pi / 180)) > 0"
    using sqrt3_bounds by (simp add: deg30 sin_30 cos_30 GRAVITY_def)
  have q: "sin (45 * pi / 180) \<le> 1 * cos (45 * pi / 180)"
    by (simp add: deg45 sin_45 cos_45)
  have m: "(0::real) < 5" by simp
  from incline_acceleration [OF m, of 30 "0.2"] p
  have "incline_calculations 30 5 0.2 = GRAVITY * (sin (30 * pi / 180) - 0.2 * cos (30 * pi / 180))"
    by blast
  then have r: "incline_calculations 30 5 0.2 = 9.81 * (1 / 2 - sqrt 3 / 10)"
    by (simp add: deg30 sin_30 cos_30 GRAVITY_def)
  from incline_acceleration [OF m, of 45 1] q
  have s: "incline_calculations 45 5 1 = 0" by blast
  from m p q r s show ?thesis by blast
qed

subsection \<open>The projectile's range and landing\<close>

lemma range_flat:
  assumes "0 \<le> vel * sin (a * pi / 180)"
  shows "r_range (projectile_calculations vel a 0) = vel\<^sup>2 * sin (2 * (a * pi / 180)) / GRAVITY"
proof -
  have "sqrt ((vel * sin (a * pi / 180))\<^sup>2) = vel * sin (a * pi / 180)"
    using assms by simp
  then have "r_range (projectile_calculations vel a 0) =
      vel * cos (a * pi / 180) * ((vel * sin (a * pi / 180) + vel * sin (a * pi / 180)) / GRAVITY)"
    by (simp add: projectile_calculations_def Let_def)
  also have "\<dots> = vel\<^sup>2 * (2 * sin (a * pi / 180) * cos (a * pi / 180)) / GRAVITY"
    by (simp add: power2_eq_square algebra_simps)
  also have "\<dots> = vel\<^sup>2 * sin (2 * (a * pi / 180)) / GRAVITY"
    by (simp only: sin_double)
  finally show ?thesis .
qed

lemma last_sample:
  "last (trajectoryData vel a h) =
     \<lparr>s_time = r_timeOfFlight (projectile_calculations vel a h),
      s_x = vel * cos (a * pi / 180) * r_timeOfFlight (projectile_calculations vel a h),
      s_y = 0\<rparr>"
  by (simp add: trajectoryData_def projectile_calculations_def Let_def)

lemma impact_time:
  assumes "0 \<le> h"
  shows "projectile_y vel a h (r_timeOfFlight (projectile_calculations vel a h)) = 0"
proof -
  define v0y where "v0y = vel * sin (a * pi / 180)"
  define D where "D = sqrt (v0y\<^sup>2 + 2 * GRAVITY * h)"
  have "0 \<le> v0y\<^sup>2 + 2 * GRAVITY * h"
    using assms GRAVITY_pos by simp
  then have D2: "D\<^sup>2 = v0y\<^sup>2 + 2 * GRAVITY * h"
    by (simp add: D_def)
  have t: "r_timeOfFlight (projectile_calculations vel a h) = (v0y + D) / GRAVITY"
    by (simp add: projectile_calculations_def Let_def v0y_def D_def)
  have "h + v0y * ((v0y + D) / GRAVITY) - 0.5 * GRAVITY * ((v0y + D) / GRAVITY)\<^sup>2
      = (2 * GRAVITY * h + v0y\<^sup>2 - D\<^sup>2) / (2 * GRAVITY)"
    using GRAVITY_pos by (simp add: field_simps power2_eq_square)
  also have "\<dots> = 0" by (simp add: D2)
  finally show ?thesis
    by (simp add: projectile_y_def t v0y_def)
qed

text \<open>
  Claim C10: from height 0 (and a launch that does not point downwards) the computed range is
  v v sin (2 \<theta>) / g; for all parameters the last sample of the trajectory has height exactly 0
  and carries the time of flight; and for a non-negative initial height that time solves
  y(t) = 0.
\<close>

theorem projectile_range_and_landing:
  "(0 \<le> vel * sin (a * pi / 180) \<longrightarrow>
      r_range (projectile_calculations vel a 0) = vel\<^sup>2 * sin (2 * (a * pi / 180)) / GRAVITY)
   \<and> last (trajectoryData vel a h) =
       \<lparr>s_time = r_timeOfFlight (projectile_calculations vel a h),
        s_x = vel * cos (a * pi / 180) * r_timeOfFlight (projectile_calculations vel a h),
        s_y = 0\<rparr>
   \<and> (0 \<le> h \<longrightarrow>
        projectile_y vel a h (r_timeOfFlight (projectile_calculations vel a h)) = 0)"
  using range_flat last_sample impact_time by blast

theorem projectile_range_and_landing_witness:
  "0 \<le> 50 * sin (45 * pi / 180)
   \<and> r_range (projectile_calculations 50 45 0) = 2500 / 9.81
   \<and> s_y (last (trajectoryData 50 45 0)) = 0
   \<and> s_time (last (trajectoryData 50 45 0)) = r_timeOfFlight (projectile_calculations 50 45 0)
   \<and> projectile_y 50 45 0 (r_timeOfFlight (projectile_calculations 50 45 0)) = 0"
proof -
  have p: "0 \<le> 50 * sin (45 * pi / 180)"
    by (simp add: deg45 sin_45)
  have z: "(0::real) \<le> 0" by simp
  note th = projectile_range_and_landing [of 50 45 0]
  from th p have "r_range (projectile_calculations 50 45 0) = 50\<^sup>2 * sin (2 * (45 * pi / 180)) / GRAVITY"
    by blast
  then have r: "r_range (projectile_calculations 50 45 0) = 2500 / 9.81"
    by (simp add: GRAVITY_def)
  from th have l: "last (trajectoryData 50 45 0) =
       \<lparr>s_time = r_timeOfFlight (projectile_calculations 50 45 0),
        s_x = 50 * cos (45 * pi / 180) * r_timeOfFlight (projectile_calculations 50 45 0),
        s_y = 0\<rparr>" by blast
  from th z have y: "projectile_y 50 45 0 (r_timeOfFlight (projectile_calculations 50 45 0)) = 0"
    by blast
  from p r l y show ?thesis by simp
qed

subsection \<open>The N-body tick\<close>

lemma length_update_particle [simp]:
  "length (update_particle c g e ps i) = length ps"
  by (simp add: update_particle_def)

lemma length_foldl_update:
  "length (foldl (update_particle c g e) ps js) = length ps"
  by (induction js arbitrary: ps) simp_all

lemma foldl_update_later:
  "n \<le> i \<Longrightarrow> foldl (update_particle c g e) ps [0..<n] ! i = ps ! i"
proof (induction n)
  case 0
  then show ?case by simp
next
  case (Suc n)
  then show ?case by (simp add: update_particle_def)
qed

lemma foldl_update_step:
  assumes "i < length ps"
  shows "foldl (update_particle c g e) ps [0..<Suc i] ! i =
     wall_collisions c (integrate_particle
       (particle_acceleration g e (foldl (update_particle c g e) ps [0..<i]) i) (ps ! i))"
  using assms
  by (simp add: update_particle_def length_foldl_update foldl_update_later)

lemma foldl_update_earlier:
  "i < n \<Longrightarrow> foldl (update_particle c g e) ps [0..<n] ! i =
     foldl (update_particle c g e) ps [0..<Suc i] ! i"
proof (induction n)
  case 0
  then show ?case by simp
next
  case (Suc n)
  show ?case
  proof (cases "i = n")
    case True
    then show ?thesis by simp
  next
    case False
    with Suc.prems have "i < n" by simp
    with Suc.IH False show ?thesis
      by (simp add: update_particle_def)
  qed
qed

lemma gameLoop_nth:
  assumes "i < length ps"
  shows "gameLoop (Some c) g e t ps ! i =
     wall_collisions c (integrate_particle
       (particle_acceleration g e (foldl (update_particle c g e) ps [0..<i]) i) (ps ! i))"
proof -
  have "gameLoop (Some c) g e t ps ! i = foldl (update_particle c g e) ps [0..<length ps] ! i"
    by (simp add: gameLoop_def)
  also have "\<dots> = foldl (update_particle c g e) ps [0..<Suc i] ! i"
    using assms by (rule foldl_update_earlier)
  also note foldl_update_step [OF assms]
  finally show ?thesis .
qed

lemma length_gameLoop: "length (gameLoop cv g e t ps) = length ps"
  by (cases cv) (simp_all add: gameLoop_def length_foldl_update)

lemma wall_collisions_bounds:
  "0 \<le> p_x (wall_collisions c p) \<and> p_x (wall_collisions c p) \<le> real (c_width c)
   \<and> 0 \<le> p_y (wall_collisions c p) \<and> p_y (wall_collisions c p) \<le> real (c_height c)"
  by (simp add: wall_collisions_def Let_def)

lemma wall_collisions_vx:
  "p_vx (wall_collisions c p) =
     (if p_x p < 0 \<or> p_x p > real (c_width c) then - 0.8 * p_vx p else p_vx p)"
  by (simp add: wall_collisions_def Let_def)

lemma wall_collisions_vy:
  "p_vy (wall_collisions c p) =
     (if p_y p < 0 \<or> p_y p > real (c_height c) then - 0.8 * p_vy p else p_vy p)"
  by (simp add: wall_collisions_def Let_def)

lemma integrate_particle_fields:
  "p_vx (integrate_particle (ax, ay) p) = p_vx p + ax"
  "p_vy (integrate_particle (ax, ay) p) = p_vy p + ay"
  "p_x (integrate_particle (ax, ay) p) = p_x p + (p_vx p + ax)"
  "p_y (integrate_particle (ax, ay) p) = p_y p + (p_vy p + ay)"
  by (simp_all add: integrate_particle_def Let_def)

lemma gameLoop_nth_integrated:
  assumes "i < length ps"
  shows "gameLoop (Some c) g e t ps ! i = wall_collisions c (integrated c g e ps i)"
  using assms by (simp add: gameLoop_nth integrated_def Let_def foldl_update_later)

lemma net_force_single: "net_force g e [p] 0 = (0, 0)"
  by (simp add: net_force_def accumulate_force_def)

lemma integrated_single:
  "integrated c g e [p] 0 = p\<lparr>p_vx := p_vx p, p_vy := p_vy p,
      p_x := p_x p + p_vx p, p_y := p_y p + p_vy p\<rparr>"
  by (simp add: integrated_def particle_acceleration_def net_force_single
      integrate_particle_def Let_def)

text \<open>
  Claim C6: the per-tick update of the N-body engine does not depend on the timestamp the
  frame callback is called with; it keeps the number of particles; particle \<open>i\<close> of the
  result is the wall-collision handling applied to the particle integrated in its iteration;
  and that integration adds the whole acceleration to the velocity and the whole updated
  velocity to the position.
\<close>

theorem gameLoop_ignores_time:
  "gameLoop cv g e t1 ps = gameLoop cv g e t2 ps
   \<and> length (gameLoop cv g e t1 ps) = length ps
   \<and> (\<forall>i < length ps. gameLoop (Some c) g e t1 ps ! i = wall_collisions c (integrated c g e ps i))
   \<and> (\<forall>i < length ps.
        p_vx (integrated c g e ps i) =
          p_vx (ps ! i) + fst (particle_acceleration g e (foldl (update_particle c g e) ps [0..<i]) i)
        \<and> p_vy (integrated c g e ps i) =
          p_vy (ps ! i) + snd (particle_acceleration g e (foldl (update_particle c g e) ps [0..<i]) i)
        \<and> p_x (integrated c g e ps i) = p_x (ps ! i) + p_vx (integrated c g e ps i)
        \<and> p_y (integrated c g e ps i) = p_y (ps ! i) + p_vy (integrated c g e ps i))"
proof (intro conjI allI impI)
  show "gameLoop cv g e t1 ps = gameLoop cv g e t2 ps"
    by (simp add: gameLoop_def)
  show "length (gameLoop cv g e t1 ps) = length ps"
    by (rule length_gameLoop)
next
  fix i assume "i < length ps"
  then show "gameLoop (Some c) g e t1 ps ! i = wall_collisions c (integrated c g e ps i)"
    by (rule gameLoop_nth_integrated)
next
  fix i assume i: "i < length ps"
  obtain ax ay where a:
    "particle_acceleration g e (foldl (update_particle c g e) ps [0..<i]) i = (ax, ay)"
    by (cases "particle_acceleration g e (foldl (update_particle c g e) ps [0..<i]) i")
  have q: "integrated c g e ps i = integrate_particle (ax, ay) (ps ! i)"
    by (simp add: integrated_def Let_def a foldl_update_later)
  show "p_vx (integrated c g e ps i) =
          p_vx (ps ! i) + fst (particle_acceleration g e (foldl (update_particle c g e) ps [0..<i]) i)"
    by (simp add: q a integrate_particle_fields)
  show "p_vy (integrated c g e ps i) =
          p_vy (ps ! i) + snd (particle_acceleration g e (foldl (update_particle c g e) ps [0..<i]) i)"
    by (simp add: q a integrate_particle_fields)
  show "p_x (integrated c g e ps i) = p_x (ps ! i) + p_vx (integrated c g e ps i)"
    by (simp add: q integrate_particle_fields)
  show "p_y (integrated c g e ps i) = p_y (ps ! i) + p_vy (integrated c g e ps i)"
    by (simp add: q integrate_particle_fields)
qed

theorem gameLoop_ignores_time_witness:
  "(0::nat) < length [\<lparr>p_x = 599, p_y = 100, p_vx = 5, p_vy = 1, p_radius = 3, p_mass = 2,
        p_charge = 1, p_color = ''#38bdf8''\<rparr>]
   \<and> gameLoop (Some \<lparr>c_width = 600, c_height = 320\<rparr>) 0.1 1 16
        [\<lparr>p_x = 599, p_y = 100, p_vx = 5, p_vy = 1, p_radius = 3, p_mass = 2,
          p_charge = 1, p_color = ''#38bdf8''\<rparr>]
     = gameLoop (Some \<lparr>c_width = 600, c_height = 320\<rparr>) 0.1 1 3600016
        [\<lparr>p_x = 599, p_y = 100, p_vx = 5, p_vy = 1, p_radius = 3, p_mass = 2,
          p_charge = 1, p_color = ''#38bdf8''\<rparr>]
   \<and> gameLoop (Some \<lparr>c_width = 600, c_height = 320\<rparr>) 0.1 1 16
        [\<lparr>p_x = 599, p_y = 100, p_vx = 5, p_vy = 1, p_radius = 3, p_mass = 2,
          p_charge = 1, p_color = ''#38bdf8''\<rparr>] ! 0
     = \<lparr>p_x = 600, p_y = 101, p_vx = - 4, p_vy = 1, p_radius = 3, p_mass = 2,
          p_charge = 1, p_color = ''#38bdf8''\<rparr>"
  using gameLoop_ignores_time [of "Some \<lparr>c_width = 600, c_height = 320\<rparr>" "0.1" 1 16
      "[\<lparr>p_x = 599, p_y = 100, p_vx = 5, p_vy = 1, p_radius = 3, p_mass = 2,
          p_charge = 1, p_color = ''#38bdf8''\<rparr>]" 3600016 "\<lparr>c_width = 600, c_height = 320\<rparr>"]
  by (simp add: gameLoop_def update_particle_def particle_acceleration_def net_force_single
      integrate_particle_def wall_collisions_def Let_def)

text \<open>
  Claim C8: after a tick every body lies within [0, width] x [0, height]; and if the
  integrated position of a body is outside [0, width] (or [0, height]), its velocity along
  that axis after the tick is the integrated one times - 0.8: the sign flipped, the
  magnitude reduced by the restitution factor.
\<close>

theorem wall_collision_and_bounds:
  "length (gameLoop (Some c) g e t ps) = length ps
   \<and> (\<forall>i < length ps.
        0 \<le> p_x (gameLoop (Some c) g e t ps ! i)
        \<and> p_x (gameLoop (Some c) g e t ps ! i) \<le> real (c_width c)
        \<and> 0 \<le> p_y (gameLoop (Some c) g e t ps ! i)
        \<and> p_y (gameLoop (Some c) g e t ps ! i) \<le> real (c_height c))
   \<and> (\<forall>i < length ps.
        (p_x (integrated c g e ps i) < 0 \<or> p_x (integrated c g e ps i) > real (c_width c) \<longrightarrow>
           p_vx (gameLoop (Some c) g e t ps ! i) = - 0.8 * p_vx (integrated c g e ps i))
        \<and> (p_y (integrated c g e ps i) < 0 \<or> p_y (integrated c g e ps i) > real (c_height c) \<longrightarrow>
           p_vy (gameLoop (Some c) g e t ps ! i) = - 0.8 * p_vy (integrated c g e ps i)))"
proof (intro conjI allI impI)
  show "length (gameLoop (Some c) g e t ps) = length ps"
    by (rule length_gameLoop)
next
  fix i assume i: "i < length ps"
  note b = wall_collisions_bounds [of c "integrated c g e ps i"]
  show "0 \<le> p_x (gameLoop (Some c) g e t ps ! i)"
    using b by (simp add: gameLoop_nth_integrated [OF i])
  show "p_x (gameLoop (Some c) g e t ps ! i) \<le> real (c_width c)"
    using b by (simp add: gameLoop_nth_integrated [OF i])
  show "0 \<le> p_y (gameLoop (Some c) g e t ps ! i)"
    using b by (simp add: gameLoop_nth_integrated [OF i])
  show "p_y (gameLoop (Some c) g e t ps ! i) \<le> real (c_height c)"
    using b by (simp add: gameLoop_nth_integrated [OF i])
next
  fix i assume i: "i < length ps"
    and "p_x (integrated c g e ps i) < 0 \<or> p_x (integrated c g e ps i) > real (c_width c)"
  then show "p_vx (gameLoop (Some c) g e t ps ! i) = - 0.8 * p_vx (integrated c g e ps i)"
    by (simp add: gameLoop_nth_integrated [OF i] wall_collisions_vx)
next
  fix i assume i: "i < length ps"
    and "p_y (integrated c g e ps i) < 0 \<or> p_y (integrated c g e ps i) > real (c_height c)"
  then show "p_vy (gameLoop (Some c) g e t ps ! i) = - 0.8 * p_vy (integrated c g e ps i)"
    by (simp add: gameLoop_nth_integrated [OF i] wall_collisions_vy)
qed

theorem wall_collision_and_bounds_witness:
  "(0::nat) < length [\<lparr>p_x = 599, p_y = 100, p_vx = 5, p_vy = 1, p_radius = 3, p_mass = 2,
        p_charge = 1, p_color = ''#38bdf8''\<rparr>]
   \<and> p_x (integrated \<lparr>c_width = 600, c_height = 320\<rparr> 0.1 1
        [\<lparr>p_x = 599, p_y = 100, p_vx = 5, p_vy = 1, p_radius = 3, p_mass = 2,
          p_charge = 1, p_color = ''#38bdf8''\<rparr>] 0) > real (c_width \<lparr>c_width = 600, c_height = 320\<rparr>)
   \<and> p_vx (integrated \<lparr>c_width = 600, c_height = 320\<rparr> 0.1 1
        [\<lparr>p_x = 599, p_y = 100, p_vx = 5, p_vy = 1, p_radius = 3, p_mass = 2,
          p_charge = 1, p_color = ''#38bdf8''\<rparr>] 0) = 5
   \<and> p_vx (gameLoop (Some \<lparr>c_width = 600, c_height = 320\<rparr>) 0.1 1 16
        [\<lparr>p_x = 599, p_y = 100, p_vx = 5, p_vy = 1, p_radius = 3, p_mass = 2,
          p_charge = 1, p_color = ''#38bdf8''\<rparr>] ! 0) = - 4
   \<and> p_x (gameLoop (Some \<lparr>c_width = 600, c_height = 320\<rparr>) 0.1 1 16
        [\<lparr>p_x = 599, p_y = 100, p_vx = 5, p_vy = 1, p_radius = 3, p_mass = 2,
          p_charge = 1, p_color = ''#38bdf8''\<rparr>] ! 0) \<le> 600"
  using wall_collision_and_bounds [of "\<lparr>c_width = 600, c_height = 320\<rparr>" "0.1" 1 16
      "[\<lparr>p_x = 599, p_y = 100, p_vx = 5, p_vy = 1, p_radius = 3, p_mass = 2,
          p_charge = 1, p_color = ''#38bdf8''\<rparr>]"]
  by (simp add: integrated_single)

subsection \<open>Two charged bodies\<close>

lemma particle_dist_sym: "particle_dist a b = particle_dist b a"
  by (simp add: particle_dist_def Let_def algebra_simps)

lemma particle_dist_pow2:
  "(particle_dist a b)\<^sup>2 = (p_x b - p_x a) * (p_x b - p_x a) + (p_y b - p_y a) * (p_y b - p_y a)"
proof -
  have "0 \<le> (p_x b - p_x a) * (p_x b - p_x a) + (p_y b - p_y a) * (p_y b - p_y a)"
    by simp
  then show ?thesis
    unfolding particle_dist_def Let_def by (rule real_sqrt_pow2)
qed

lemma pair_acceleration_form:
  fixes K D s dx m :: real
  assumes "D = s\<^sup>2"
  shows "(0 - K / D * (dx / s)) / m = - K / (s\<^sup>2 * s * m) * dx"
  using assms by (simp add: field_simps)

lemma two_body_acceleration_0:
  "particle_acceleration 0 e [a, b] 0 =
     (if particle_dist a b > 2
      then (- (k_const * e * p_charge a * p_charge b)
              / ((particle_dist a b)\<^sup>2 * particle_dist a b * p_mass a) * (p_x b - p_x a),
            - (k_const * e * p_charge a * p_charge b)
              / ((particle_dist a b)\<^sup>2 * particle_dist a b * p_mass a) * (p_y b - p_y a))
      else (0, 0))"
proof -
  define D where "D = (p_x b - p_x a) * (p_x b - p_x a) + (p_y b - p_y a) * (p_y b - p_y a)"
  have s: "particle_dist a b = sqrt D"
    by (simp add: particle_dist_def Let_def D_def)
  have D: "D = (particle_dist a b)\<^sup>2"
    by (simp add: particle_dist_pow2 D_def)
  have "particle_acceleration 0 e [a, b] 0 =
     (if sqrt D > 2
      then ((0 - k_const * e * p_charge a * p_charge b / D * ((p_x b - p_x a) / sqrt D)) / p_mass a,
            (0 - k_const * e * p_charge a * p_charge b / D * ((p_y b - p_y a) / sqrt D)) / p_mass a)
      else (0, 0))"
    by (simp add: particle_acceleration_def net_force_def accumulate_force_def Let_def D_def)
  also have "\<dots> = (if particle_dist a b > 2
      then (- (k_const * e * p_charge a * p_charge b)
              / ((particle_dist a b)\<^sup>2 * particle_dist a b * p_mass a) * (p_x b - p_x a),
            - (k_const * e * p_charge a * p_charge b)
              / ((particle_dist a b)\<^sup>2 * particle_dist a b * p_mass a) * (p_y b - p_y a))
      else (0, 0))"
    unfolding s [symmetric] by (simp only: pair_acceleration_form [OF D])
  finally show ?thesis .
qed

lemma two_body_acceleration_1:
  "particle_acceleration 0 e [a, b] 1 =
     (if particle_dist b a > 2
      then (- (k_const * e * p_charge b * p_charge a)
              / ((particle_dist b a)\<^sup>2 * particle_dist b a * p_mass b) * (p_x a - p_x b),
            - (k_const * e * p_charge b * p_charge a)
              / ((particle_dist b a)\<^sup>2 * particle_dist b a * p_mass b) * (p_y a - p_y b))
      else (0, 0))"
proof -
  define D where "D = (p_x a - p_x b) * (p_x a - p_x b) + (p_y a - p_y b) * (p_y a - p_y b)"
  have s: "particle_dist b a = sqrt D"
    by (simp add: particle_dist_def Let_def D_def)
  have D: "D = (particle_dist b a)\<^sup>2"
    by (simp add: particle_dist_pow2 D_def)
  have "particle_acceleration 0 e [a, b] 1 =
     (if sqrt D > 2
      then ((0 - k_const * e * p_charge b * p_charge a / D * ((p_x a - p_x b) / sqrt D)) / p_mass b,
            (0 - k_const * e * p_charge b * p_charge a / D * ((p_y a - p_y b) / sqrt D)) / p_mass b)
      else (0, 0))"
    by (simp add: particle_acceleration_def net_force_def accumulate_force_def Let_def D_def)
  also have "\<dots> = (if particle_dist b a > 2
      then (- (k_const * e * p_charge b * p_charge a)
              / ((particle_dist b a)\<^sup>2 * particle_dist b a * p_mass b) * (p_x a - p_x b),
            - (k_const * e * p_charge b * p_charge a)
              / ((particle_dist b a)\<^sup>2 * particle_dist b a * p_mass b) * (p_y a - p_y b))
      else (0, 0))"
    unfolding s [symmetric] by (simp only: pair_acceleration_form [OF D])
  finally show ?thesis .
qed

lemma gameLoop_two:
  "gameLoop (Some c) g e t [a, b] =
      [wall_collisions c (integrate_particle (particle_acceleration g e [a, b] 0) a),
       wall_collisions c (integrate_particle (particle_acceleration g e
          [wall_collisions c (integrate_particle (particle_acceleration g e [a, b] 0) a), b] 1) b)]"
  by (simp add: gameLoop_def update_particle_def)

lemma k_const_pos: "0 < k_const"
  by (simp add: k_const_def)

lemma sqrt_9: "sqrt 9 = 3"
  using real_sqrt_abs2 [of 3] by simp

lemma sqrt_16: "sqrt 16 = 4"
  using real_sqrt_abs2 [of 4] by simp

text \<open>
  Claim C9, as stated: with gravity coefficient 0 and a positive electrostatic coefficient,
  two bodies of equal mass and opposite unit charge at rest, farther apart than the threshold,
  each receive an acceleration toward the other on a tick. It fails for the second body: the
  tick moves the first body before it computes the force on the second. Bodies at x = 10 and
  x = 13 are 3 apart; with coefficient 0.9 the first moves to x = 11, which is 2 from the
  second and so not beyond the threshold, and the second body gets no acceleration and comes
  out of the tick unchanged.
\<close>

theorem opposite_charges_counterexample:
  "particle_dist \<lparr>p_x = 10, p_y = 10, p_vx = 0, p_vy = 0, p_radius = 3, p_mass = 1,
        p_charge = 1, p_color = ''#38bdf8''\<rparr>
      \<lparr>p_x = 13, p_y = 10, p_vx = 0, p_vy = 0, p_radius = 2, p_mass = 1,
        p_charge = - 1, p_color = ''#f43f5e''\<rparr> = 3
   \<and> gameLoop (Some \<lparr>c_width = 600, c_height = 320\<rparr>) 0 0.9 16
      [\<lparr>p_x = 10, p_y = 10, p_vx = 0, p_vy = 0, p_radius = 3, p_mass = 1,
        p_charge = 1, p_color = ''#38bdf8''\<rparr>,
       \<lparr>p_x = 13, p_y = 10, p_vx = 0, p_vy = 0, p_radius = 2, p_mass = 1,
        p_charge = - 1, p_color = ''#f43f5e''\<rparr>]
     = [\<lparr>p_x = 11, p_y = 10, p_vx = 1, p_vy = 0, p_radius = 3, p_mass = 1,
        p_charge = 1, p_color = ''#38bdf8''\<rparr>,
        \<lparr>p_x = 13, p_y = 10, p_vx = 0, p_vy = 0, p_radius = 2, p_mass = 1,
        p_charge = - 1, p_color = ''#f43f5e''\<rparr>]
   \<and> particle_acceleration 0 0.9
      [\<lparr>p_x = 11, p_y = 10, p_vx = 1, p_vy = 0, p_radius = 3, p_mass = 1,
        p_charge = 1, p_color = ''#38bdf8''\<rparr>,
       \<lparr>p_x = 13, p_y = 10, p_vx = 0, p_vy = 0, p_radius = 2, p_mass = 1,
        p_charge = - 1, p_color = ''#f43f5e''\<rparr>] 1 = (0, 0)"
proof (intro conjI)
  show "particle_dist \<lparr>p_x = 10, p_y = 10, p_vx = 0, p_vy = 0, p_radius = 3, p_mass = 1,
        p_charge = 1, p_color = ''#38bdf8''\<rparr>
      \<lparr>p_x = 13, p_y = 10, p_vx = 0, p_vy = 0, p_radius = 2, p_mass = 1,
        p_charge = - 1, p_color = ''#f43f5e''\<rparr> = 3"
    by (simp add: particle_dist_def Let_def sqrt_9)
  have a0: "particle_acceleration 0 0.9
      [\<lparr>p_x = 10, p_y = 10, p_vx = 0, p_vy = 0, p_radius = 3, p_mass = 1,
        p_charge = 1, p_color = ''#38bdf8''\<rparr>,
       \<lparr>p_x = 13, p_y = 10, p_vx = 0, p_vy = 0, p_radius = 2, p_mass = 1,
        p_charge = - 1, p_color = ''#f43f5e''\<rparr>] 0 = (1, 0)"
    by (simp add: two_body_acceleration_0 particle_dist_def Let_def sqrt_9 k_const_def)
  show a1: "particle_acceleration 0 0.9
      [\<lparr>p_x = 11, p_y = 10, p_vx = 1, p_vy = 0, p_radius = 3, p_mass = 1,
        p_charge = 1, p_color = ''#38bdf8''\<rparr>,
       \<lparr>p_x = 13, p_y = 10, p_vx = 0, p_vy = 0, p_radius = 2, p_mass = 1,
        p_charge = - 1, p_color = ''#f43f5e''\<rparr>] 1 = (0, 0)"
    by (simp add: two_body_acceleration_1 [unfolded One_nat_def] particle_dist_def Let_def)
  show "gameLoop (Some \<lparr>c_width = 600, c_height = 320\<rparr>) 0 0.9 16
      [\<lparr>p_x = 10, p_y = 10, p_vx = 0, p_vy = 0, p_radius = 3, p_mass = 1,
        p_charge = 1, p_color = ''#38bdf8''\<rparr>,
       \<lparr>p_x = 13, p_y = 10, p_vx = 0, p_vy = 0, p_radius = 2, p_mass = 1,
        p_charge = - 1, p_color = ''#f43f5e''\<rparr>]
     = [\<lparr>p_x = 11, p_y = 10, p_vx = 1, p_vy = 0, p_radius = 3, p_mass = 1,
        p_charge = 1, p_color = ''#38bdf8''\<rparr>,
        \<lparr>p_x = 13, p_y = 10, p_vx = 0, p_vy = 0, p_radius = 2, p_mass = 1,
        p_charge = - 1, p_color = ''#f43f5e''\<rparr>]"
    by (simp add: gameLoop_two a0 a1 [unfolded One_nat_def] integrate_particle_def
        wall_collisions_def Let_def)
qed

text \<open>
  Claim C9, amended: with gravity coefficient 0, a positive electrostatic coefficient and
  positive masses, the acceleration computed for a body of a two-body array is a positive
  multiple of the vector to the other body when the charges are opposite unit charges, and a
  negative multiple when they are equal unit charges, provided the two are more than 2 apart
  in the array the force is computed on; it is zero when they are at most 2 apart. In a tick
  the first body's acceleration is computed on the array as it was, and the second body's on
  the array in which the first body has already been moved.
\<close>

theorem two_body_electrostatics:
  assumes "0 < e" and "0 < p_mass a" and "0 < p_mass b"
  shows
   "(2 < particle_dist a b \<and> p_charge a * p_charge b = - 1 \<longrightarrow>
       (\<exists>k>0. particle_acceleration 0 e [a, b] 0 = (k * (p_x b - p_x a), k * (p_y b - p_y a)))
     \<and> (\<exists>k>0. particle_acceleration 0 e [a, b] 1 = (k * (p_x a - p_x b), k * (p_y a - p_y b))))
  \<and> (2 < particle_dist a b \<and> p_charge a * p_charge b = 1 \<longrightarrow>
       (\<exists>k<0. particle_acceleration 0 e [a, b] 0 = (k * (p_x b - p_x a), k * (p_y b - p_y a)))
     \<and> (\<exists>k<0. particle_acceleration 0 e [a, b] 1 = (k * (p_x a - p_x b), k * (p_y a - p_y b))))
  \<and> (particle_dist a b \<le> 2 \<longrightarrow>
       particle_acceleration 0 e [a, b] 0 = (0, 0) \<and> particle_acceleration 0 e [a, b] 1 = (0, 0))
  \<and> gameLoop (Some c) 0 e t [a, b] =
      [wall_collisions c (integrate_particle (particle_acceleration 0 e [a, b] 0) a),
       wall_collisions c (integrate_particle (particle_acceleration 0 e
          [wall_collisions c (integrate_particle (particle_acceleration 0 e [a, b] 0) a), b] 1) b)]"
proof (intro conjI impI)
  assume h: "2 < particle_dist a b \<and> p_charge a * p_charge b = - 1"
  then have d: "0 < particle_dist a b" and far: "2 < particle_dist a b" by simp_all
  from h have q: "k_const * e * p_charge a * p_charge b = - (k_const * e)"
    and q': "k_const * e * p_charge b * p_charge a = - (k_const * e)"
    by (simp_all add: mult.assoc mult.commute [of "p_charge b"])
  have ke: "0 < k_const * e" using assms(1) k_const_pos by simp
  show "\<exists>k>0. particle_acceleration 0 e [a, b] 0 = (k * (p_x b - p_x a), k * (p_y b - p_y a))"
  proof (intro exI conjI)
    show "0 < k_const * e / ((particle_dist a b)\<^sup>2 * particle_dist a b * p_mass a)"
      using ke d assms(2) by simp
    show "particle_acceleration 0 e [a, b] 0 =
       (k_const * e / ((particle_dist a b)\<^sup>2 * particle_dist a b * p_mass a) * (p_x b - p_x a),
        k_const * e / ((particle_dist a b)\<^sup>2 * particle_dist a b * p_mass a) * (p_y b - p_y a))"
      using far by (simp only: two_body_acceleration_0 q if_True minus_minus)
  qed
  show "\<exists>k>0. particle_acceleration 0 e [a, b] 1 = (k * (p_x a - p_x b), k * (p_y a - p_y b))"
  proof (intro exI conjI)
    show "0 < k_const * e / ((particle_dist b a)\<^sup>2 * particle_dist b a * p_mass b)"
      using ke d assms(3) by (simp add: particle_dist_sym [of b a])
    show "particle_acceleration 0 e [a, b] 1 =
       (k_const * e / ((particle_dist b a)\<^sup>2 * particle_dist b a * p_mass b) * (p_x a - p_x b),
        k_const * e / ((particle_dist b a)\<^sup>2 * particle_dist b a * p_mass b) * (p_y a - p_y b))"
      using far [unfolded particle_dist_sym [of a b]]
      by (simp only: two_body_acceleration_1 q' if_True minus_minus)
  qed
next
  assume h: "2 < particle_dist a b \<and> p_charge a * p_charge b = 1"
  then have d: "0 < particle_dist a b" and far: "2 < particle_dist a b" by simp_all
  from h have q: "k_const * e * p_charge a * p_charge b = k_const * e"
    and q': "k_const * e * p_charge b * p_charge a = k_const * e"
    by (simp_all add: mult.assoc mult.commute [of "p_charge b"])
  have ke: "0 < k_const * e" using assms(1) k_const_pos by simp
  show "\<exists>k<0. particle_acceleration 0 e [a, b] 0 = (k * (p_x b - p_x a), k * (p_y b - p_y a))"
  proof (intro exI conjI)
    show "- (k_const * e) / ((particle_dist a b)\<^sup>2 * particle_dist a b * p_mass a) < 0"
      using ke d assms(2) by (simp add: divide_neg_pos)
    show "particle_acceleration 0 e [a, b] 0 =
       (- (k_const * e) / ((particle_dist a b)\<^sup>2 * particle_dist a b * p_mass a) * (p_x b - p_x a),
        - (k_const * e) / ((particle_dist a b)\<^sup>2 * particle_dist a b * p_mass a) * (p_y b - p_y a))"
      using far by (simp only: two_body_acceleration_0 q if_True)
  qed
  show "\<exists>k<0. particle_acceleration 0 e [a, b] 1 = (k * (p_x a - p_x b), k * (p_y a - p_y b))"
  proof (intro exI conjI)
    show "- (k_const * e) / ((particle_dist b a)\<^sup>2 * particle_dist b a * p_mass b) < 0"
      using ke d assms(3) by (simp add: divide_neg_pos particle_dist_sym [of b a])
    show "particle_acceleration 0 e [a, b] 1 =
       (- (k_const * e) / ((particle_dist b a)\<^sup>2 * particle_dist b a * p_mass b) * (p_x a - p_x b),
        - (k_const * e) / ((particle_dist b a)\<^sup>2 * particle_dist b a * p_mass b) * (p_y a - p_y b))"
      using far [unfolded particle_dist_sym [of a b]]
      by (simp only: two_body_acceleration_1 q' if_True)
  qed
next
  assume h: "particle_dist a b \<le> 2"
  then show "particle_acceleration 0 e [a, b] 0 = (0, 0)"
    by (simp add: two_body_acceleration_0)
  from h have "\<not> 2 < particle_dist b a"
    by (simp add: particle_dist_sym [of b a])
  then show "particle_acceleration 0 e [a, b] 1 = (0, 0)"
    by (simp only: two_body_acceleration_1 if_False)
next
  show "gameLoop (Some c) 0 e t [a, b] =
      [wall_collisions c (integrate_particle (particle_acceleration 0 e [a, b] 0) a),
       wall_collisions c (integrate_particle (particle_acceleration 0 e
          [wall_collisions c (integrate_particle (particle_acceleration 0 e [a, b] 0) a), b] 1) b)]"
    by (rule gameLoop_two)
qed

theorem two_body_electrostatics_witness:
  "(0::real) < 0.9
   \<and> 2 < particle_dist \<lparr>p_x = 10, p_y = 10, p_vx = 0, p_vy = 0, p_radius = 3, p_mass = 1,
        p_charge = 1, p_color = ''#38bdf8''\<rparr>
      \<lparr>p_x = 13, p_y = 10, p_vx = 0, p_vy = 0, p_radius = 2, p_mass = 1,
        p_charge = - 1, p_color = ''#f43f5e''\<rparr>
   \<and> (\<exists>k>0. particle_acceleration 0 0.9
      [\<lparr>p_x = 10, p_y = 10, p_vx = 0, p_vy = 0, p_radius = 3, p_mass = 1,
        p_charge = 1, p_color = ''#38bdf8''\<rparr>,
       \<lparr>p_x = 13, p_y = 10, p_vx = 0, p_vy = 0, p_radius = 2, p_mass = 1,
        p_charge = - 1, p_color = ''#f43f5e''\<rparr>] 0 = (k * (13 - 10), k * (10 - 10)))
   \<and> (\<exists>k>0. particle_acceleration 0 0.9
      [\<lparr>p_x = 10, p_y = 10, p_vx = 0, p_vy = 0, p_radius = 3, p_mass = 1,
        p_charge = 1, p_color = ''#38bdf8''\<rparr>,
       \<lparr>p_x = 13, p_y = 10, p_vx = 0, p_vy = 0, p_radius = 2, p_mass = 1,
        p_charge = - 1, p_color = ''#f43f5e''\<rparr>] 1 = (k * (10 - 13), k * (10 - 10)))
   \<and> 2 < particle_dist \<lparr>p_x = 10, p_y = 10, p_vx = 0, p_vy = 0, p_radius = 3, p_mass = 1,
        p_charge = 1, p_color = ''#38bdf8''\<rparr>
      \<lparr>p_x = 14, p_y = 10, p_vx = 0, p_vy = 0, p_radius = 3, p_mass = 1,
        p_charge = 1, p_color = ''#38bdf8''\<rparr>
   \<and> (\<exists>k<0. particle_acceleration 0 0.9
      [\<lparr>p_x = 10, p_y = 10, p_vx = 0, p_vy = 0, p_radius = 3, p_mass = 1,
        p_charge = 1, p_color = ''#38bdf8''\<rparr>,
       \<lparr>p_x = 14, p_y = 10, p_vx = 0, p_vy = 0, p_radius = 3, p_mass = 1,
        p_charge = 1, p_color = ''#38bdf8''\<rparr>] 0 = (k * (14 - 10), k * (10 - 10)))"
proof -
  have e: "(0::real) < 0.9" by simp
  have d1: "2 < particle_dist \<lparr>p_x = 10, p_y = 10, p_vx = 0, p_vy = 0, p_radius = 3, p_mass = 1,
        p_charge = 1, p_color = ''#38bdf8''\<rparr>
      \<lparr>p_x = 13, p_y = 10, p_vx = 0, p_vy = 0, p_radius = 2, p_mass = 1,
        p_charge = - 1, p_color = ''#f43f5e''\<rparr>"
    by (simp add: particle_dist_def Let_def sqrt_9)
  have d2: "2 < particle_dist \<lparr>p_x = 10, p_y = 10, p_vx = 0, p_vy = 0, p_radius = 3, p_mass = 1,
        p_charge = 1, p_color = ''#38bdf8''\<rparr>
      \<lparr>p_x = 14, p_y = 10, p_vx = 0, p_vy = 0, p_radius = 3, p_mass = 1,
        p_charge = 1, p_color = ''#38bdf8''\<rparr>"
    by (simp add: particle_dist_def Let_def sqrt_16)
  have t1: "(\<exists>k>0. particle_acceleration 0 0.9
      [\<lparr>p_x = 10, p_y = 10, p_vx = 0, p_vy = 0, p_radius = 3, p_mass = 1,
        p_charge = 1, p_color = ''#38bdf8''\<rparr>,
       \<lparr>p_x = 13, p_y = 10, p_vx = 0, p_vy = 0, p_radius = 2, p_mass = 1,
        p_charge = - 1, p_color = ''#f43f5e''\<rparr>] 0 = (k * (13 - 10), k * (10 - 10)))
   \<and> (\<exists>k>0. particle_acceleration 0 0.9
      [\<lparr>p_x = 10, p_y = 10, p_vx = 0, p_vy = 0, p_radius = 3, p_mass = 1,
        p_charge = 1, p_color = ''#38bdf8''\<rparr>,
       \<lparr>p_x = 13, p_y = 10, p_vx = 0, p_vy = 0, p_radius = 2, p_mass = 1,
        p_charge = - 1, p_color = ''#f43f5e''\<rparr>] 1 = (k * (10 - 13), k * (10 - 10)))"
    using two_body_electrostatics [of "0.9" "\<lparr>p_x = 10, p_y = 10, p_vx = 0, p_vy = 0, p_radius = 3, p_mass = 1,
        p_charge = 1, p_color = ''#38bdf8''\<rparr>"
      "\<lparr>p_x = 13, p_y = 10, p_vx = 0, p_vy = 0, p_radius = 2, p_mass = 1,
        p_charge = - 1, p_color = ''#f43f5e''\<rparr>"
      "\<lparr>c_width = 600, c_height = 320\<rparr>" 16] d1
    by simp
  have t2: "\<exists>k<0. particle_acceleration 0 0.9
      [\<lparr>p_x = 10, p_y = 10, p_vx = 0, p_vy = 0, p_radius = 3, p_mass = 1,
        p_charge = 1, p_color = ''#38bdf8''\<rparr>,
       \<lparr>p_x = 14, p_y = 10, p_vx = 0, p_vy = 0, p_radius = 3, p_mass = 1,
        p_charge = 1, p_color = ''#38bdf8''\<rparr>] 0 = (k * (14 - 10), k * (10 - 10))"
    using two_body_electrostatics [of "0.9" "\<lparr>p_x = 10, p_y = 10, p_vx = 0, p_vy = 0, p_radius = 3, p_mass = 1,
        p_charge = 1, p_color = ''#38bdf8''\<rparr>"
      "\<lparr>p_x = 14, p_y = 10, p_vx = 0, p_vy = 0, p_radius = 3, p_mass = 1,
        p_charge = 1, p_color = ''#38bdf8''\<rparr>"
      "\<lparr>c_width = 600, c_height = 320\<rparr>" 16] d2
    by simp
  from e d1 d2 t1 t2 show ?thesis by blast
qed

subsection \<open>Reset\<close>









end
